theory Spec2Isabelle
  imports Complex_Main "HOL-Library.List_Lexorder" "HOL-Library.Multiset"
begin

text \<open>
  A model of the calendar assistant behind the LINE bot: the handler of text messages
  with its conversation states (\<open>handleMessage\<close>), the commit of a plan to the
  calendar (\<open>handleCreatePlan\<close>), the background handling of images
  (\<open>processImageInBackground\<close>) and the response formatter
  (\<open>formatEventsForLine\<close>). The language model, the calendar, the sheet and the
  push channel are parameters; every call to them is recorded in a trace.
\<close>

section \<open>Strings and values of the runtime\<close>

text \<open>
  A JavaScript string is a sequence of UTF-16 code units; \<open>length\<close>, \<open>includes\<close>,
  \<open>trim\<close> and the default order of \<open>Array.sort\<close> all work on code units. The literals of
  the program that are not ASCII are written as their code units.
\<close>

type_synonym jsstring = "nat list"

definition ascii :: "string \<Rightarrow> jsstring" where
  "ascii s = map of_char s"

text \<open>Conversion of a natural number to its decimal digits, as a template literal does.\<close>

fun showNat :: "nat \<Rightarrow> jsstring" where
  "showNat n = (if n < 10 then [48 + n] else showNat (n div 10) @ [48 + n mod 10])"

declare showNat.simps [simp del]

text \<open>\<open>String.prototype.trim\<close>: white space and line terminators of ECMAScript.\<close>

definition isWhiteSpace :: "nat \<Rightarrow> bool" where
  "isWhiteSpace c \<longleftrightarrow>
     c \<in> {9, 10, 11, 12, 13, 32, 160, 5760, 8232, 8233, 8239, 8287, 12288, 65279}
     \<or> (8192 \<le> c \<and> c \<le> 8202)"

definition trim :: "jsstring \<Rightarrow> jsstring" where
  "trim s = rev (dropWhile isWhiteSpace (rev (dropWhile isWhiteSpace s)))"

text \<open>\<open>String.prototype.includes\<close>: the argument occurs as a contiguous substring.\<close>

fun includesStr :: "jsstring \<Rightarrow> jsstring \<Rightarrow> bool" where
  "includesStr [] t = (t = [])"
| "includesStr (c # s) t = (take (length t) (c # s) = t \<or> includesStr s t)"

text \<open>\<open>Array.prototype.join\<close> on strings.\<close>

fun join :: "jsstring \<Rightarrow> jsstring list \<Rightarrow> jsstring" where
  "join sep [] = []"
| "join sep [x] = x"
| "join sep (x # y # ys) = x @ sep @ join sep (y # ys)"

text \<open>Truthiness of an optional string and of an optional number.\<close>

fun truthyS :: "jsstring option \<Rightarrow> bool" where
  "truthyS None = False"
| "truthyS (Some s) = (s \<noteq> [])"

fun truthyN :: "nat option \<Rightarrow> bool" where
  "truthyN None = False"
| "truthyN (Some n) = (n \<noteq> 0)"

text \<open>A template literal renders a missing value as the text \<open>undefined\<close>.\<close>

fun render :: "jsstring option \<Rightarrow> jsstring" where
  "render None = ascii ''undefined''"
| "render (Some s) = s"

datatype exn = TypeError | RangeError | SyntaxError | ServiceError

section \<open>Text literals of the program\<close>

text \<open>
  Each literal is the list of the UTF-16 code units of the text in the source; the note
  beside it says where the program uses it.
\<close>

definition msg_cancelled :: jsstring where \<comment> \<open>waiting_confirmation, negative reply: 'the arrangement has been cancelled'\<close>
  "msg_cancelled = [22909, 30340, 65292, 24050, 28858, 24744, 21462, 28040, 23433, 25490,
     12290]"

definition msg_adjusted_prefix :: jsstring where \<comment> \<open>heading of the adjusted plan\<close>
  "msg_adjusted_prefix = [22909, 30340, 65292, 36889, 26159, 28858, 24744, 35519, 25972, 24460,
     30340, 35336, 30059, 65292, 24744, 35258, 24471, 22914, 20309, 65311, 10, 10]"

definition msg_modify_unclear :: jsstring where \<comment> \<open>fallback when the modification has no response text\<close>
  "msg_modify_unclear = [25265, 27465, 65292, 25105, 19981, 22826, 33021, 29702, 35299, 24744,
     30340, 20462, 25913, 12290]"

definition msg_deleted_a :: jsstring where \<comment> \<open>deletion summary, before the count\<close>
  "msg_deleted_a = [9989, 32, 25805, 20316, 23436, 25104, 65281, 24050, 25104, 21151, 21034,
     38500, 32]"

definition msg_deleted_b :: jsstring where \<comment> \<open>deletion summary, after the count\<close>
  "msg_deleted_b = [32, 20491, 34892, 31243, 65306, 10, 45, 32]"

definition sep_dash :: jsstring where \<comment> \<open>separator of join in the deletion summary\<close>
  "sep_dash = [10, 45, 32]"

definition msg_delete_cancelled :: jsstring where \<comment> \<open>nothing was deleted\<close>
  "msg_delete_cancelled = [22909, 30340, 65292, 24050, 21462, 28040, 21034, 38500, 25805, 20316,
     12290]"

definition msg_merge_failed :: jsstring where \<comment> \<open>merging the correction failed\<close>
  "msg_merge_failed = [25265, 27465, 65292, 21512, 20341, 24744, 30340, 20462, 27491, 26178,
     30332, 29983, 37679, 35492, 65292, 35531, 20877, 35430, 19968, 27425, 12290]"

definition msg_merged_prefix :: jsstring where \<comment> \<open>heading of the merged plan\<close>
  "msg_merged_prefix = [22826, 22909, 20102, 65281, 36889, 26159, 26356, 26032, 24460, 30340,
     23436, 25972, 35336, 30059, 65292, 24744, 30475, 19968, 19979, 26159, 21542, 27491, 30906,
     65311, 10, 10]"

definition msg_note_forgotten :: jsstring where \<comment> \<open>state without note id\<close>
  "msg_note_forgotten = [25265, 27465, 65292, 25105, 24536, 35352, 25105, 20497, 27491, 22312,
     35342, 35542, 21738, 20221, 31558, 35352, 20102, 65292, 25105, 20497, 21487, 20197, 37325,
     26032, 38283, 22987, 21966, 65311]"

definition msg_objective_missing_a :: jsstring where \<comment> \<open>objective not found, before the title\<close>
  "msg_objective_missing_a = [55358, 56596, 32, 25214, 19981, 21040, 21517, 28858, 12300]"

definition msg_objective_missing_check :: jsstring where \<comment> \<open>objective not found (archive), after the title\<close>
  "msg_objective_missing_check = [12301, 30340, 23416, 32722, 30446, 27161, 12290, 24744, 21487,
     20197, 20808, 24314, 31435, 23427, 65292, 25110, 27298, 26597, 21517, 31281, 26159, 21542,
     27491, 30906, 12290]"

definition msg_objective_missing_create :: jsstring where \<comment> \<open>objective not found (planning), after the title\<close>
  "msg_objective_missing_create = [12301, 30340, 23416, 32722, 30446, 27161, 65292, 35201,
     20808, 24314, 31435, 19968, 20491, 21966, 65311]"

definition msg_archived_a :: jsstring where \<comment> \<open>note archived, before the title\<close>
  "msg_archived_a = [9989, 32, 22909, 30340, 65292, 24050, 23559, 36889, 20221, 31558, 35352,
     27512, 27284, 21040, 24744, 30340, 23416, 32722, 30446, 27161, 12300]"

definition msg_archived_b :: jsstring where \<comment> \<open>note archived, after the title\<close>
  "msg_archived_b = [12301, 20013, 65281]"

definition msg_note_read_failed :: jsstring where \<comment> \<open>note data could not be read\<close>
  "msg_note_read_failed = [25265, 27465, 65292, 35712, 21462, 31558, 35352, 36039, 26009, 26178,
     30332, 29983, 37679, 35492, 12290]"

definition msg_need_title :: jsstring where \<comment> \<open>objective title missing\<close>
  "msg_need_title = [55358, 56596, 32, 35531, 21578, 35380, 25105, 24744, 30340, 23416, 32722,
     30446, 27161, 26159, 20160, 40636, 21908, 65281]"

definition msg_objective_created_a :: jsstring where \<comment> \<open>objective created, before the title\<close>
  "msg_objective_created_a = [9989, 32, 24050, 28858, 24744, 24314, 31435, 26032, 30340, 23416,
     32722, 30446, 27161, 65306, 10, 10, 55356, 57263, 32]"

definition msg_objective_due :: jsstring where \<comment> \<open>objective created, due date line\<close>
  "msg_objective_due = [10, 45, 32, 25130, 27490, 26085, 26399, 58, 32]"

definition msg_objective_created_b :: jsstring where \<comment> \<open>objective created, hint before the title\<close>
  "msg_objective_created_b = [10, 10, 25509, 19979, 20358, 65292, 24744, 21487, 20197, 35498,
     65306, 12300, 24171, 25105, 35215, 21123, 12302]"

definition msg_objective_created_c :: jsstring where \<comment> \<open>objective created, hint after the title\<close>
  "msg_objective_created_c = [12303, 12301, 65292, 20358, 28858, 36889, 20491, 30446, 27161,
     23433, 25490, 20855, 39636, 34892, 31243, 12290]"

definition msg_not_understood :: jsstring where \<comment> \<open>unknown action\<close>
  "msg_not_understood = [55358, 56596, 32, 25265, 27465, 65292, 25105, 19981, 22826, 29702,
     35299, 24744, 30340, 38656, 27714, 12290, 24744, 21487, 20197, 35430, 35430, 65306, 12300,
     24171, 25105, 35215, 21123, 19979, 36913, 30340, 35712, 26360, 35336, 30059, 12301, 12290]"

definition msg_generic_failure :: jsstring where \<comment> \<open>generic failure reply of the catch block\<close>
  "msg_generic_failure = [55357, 56837, 32, 25265, 27465, 65292, 34389, 29702, 24744, 30340,
     35531, 27714, 26178, 30332, 29983, 37679, 35492, 65292, 35531, 31245, 24460, 20877, 35430,
     12290]"

definition plan_greeting :: jsstring where \<comment> \<open>greeting of the plan draft\<close>
  "plan_greeting = [36889, 26159, 28858, 24744, 24314, 35696, 30340, 35336, 30059, 33609, 26696,
     65292, 24744, 35258, 24471, 22914, 20309, 65311, 10, 10]"

definition plan_stage_a :: jsstring where \<comment> \<open>plan step heading, before the number\<close>
  "plan_stage_a = [55357, 56787, 65039, 32, 42, 42, 38542, 27573, 32]"

definition plan_stage_b :: jsstring where \<comment> \<open>plan step heading, end\<close>
  "plan_stage_b = [42, 42, 10]"

definition plan_date :: jsstring where \<comment> \<open>plan step, date line\<close>
  "plan_date = [32, 32, 32, 45, 32, 42, 42, 26085, 26399, 58, 42, 42, 32]"

definition plan_time :: jsstring where \<comment> \<open>plan step, time line\<close>
  "plan_time = [32, 32, 32, 45, 32, 42, 42, 26178, 38291, 58, 42, 42, 32]"

definition plan_duration_a :: jsstring where \<comment> \<open>plan step, duration line\<close>
  "plan_duration_a = [32, 32, 32, 45, 32, 42, 42, 26178, 38263, 58, 42, 42, 32, 32004, 32]"

definition plan_duration_b :: jsstring where \<comment> \<open>plan step, duration line end\<close>
  "plan_duration_b = [32, 23567, 26178, 10]"

definition plan_footer :: jsstring where \<comment> \<open>closing question of the plan draft\<close>
  "plan_footer = [22914, 26524, 24744, 21516, 24847, 36889, 20491, 35215, 21123, 65292, 35531,
     22238, 35206, 12300, 22909, 12301, 65292, 25105, 23601, 26371, 23559, 23427, 25490, 20837,
     24744, 30340, 34892, 20107, 26310, 65281, 40, 25110, 25552, 20986, 24744, 30340, 20462,
     25913, 24847, 35211, 41]"

definition msg_created_a :: jsstring where \<comment> \<open>commit summary, before the count\<close>
  "msg_created_a = [9989, 32, 22826, 26834, 20102, 65281, 24050, 28858, 24744, 23559, 32]"

definition msg_created_b :: jsstring where \<comment> \<open>commit summary, after the count\<close>
  "msg_created_b = [32, 20491, 20219, 21209, 34892, 31243, 26032, 22686, 21040, 24744, 30340,
     32, 71, 111, 111, 103, 108, 101, 32, 67, 97, 108, 101, 110, 100, 97, 114, 65281]"

definition msg_none_created :: jsstring where \<comment> \<open>commit summary when nothing was created\<close>
  "msg_none_created = [9888, 65039, 32, 38614, 28982, 25910, 21040, 20102, 24744, 30340, 25351,
     20196, 65292, 20294, 27794, 26377, 25104, 21151, 26032, 22686, 20219, 20309, 34892, 31243,
     65292, 35531, 27298, 26597, 24460, 20877, 35430, 12290]"

definition msg_list_failed :: jsstring where \<comment> \<open>listing failed\<close>
  "msg_list_failed = [55357, 56517, 32, 25265, 27465, 65292, 26597, 35426, 26085, 26310, 20107,
     20214, 26178, 30332, 29983, 37679, 35492, 65292, 35531, 30906, 35469, 24744, 30340, 32, 71,
     111, 111, 103, 108, 101, 32, 36899, 25509, 27491, 24120, 12290]"

definition msg_need_summary_start :: jsstring where \<comment> \<open>single event without title or start\<close>
  "msg_need_summary_start = [55357, 56541, 32, 25265, 27465, 65292, 25105, 38656, 35201, 26126,
     30906, 30340, 12300, 20107, 20214, 27161, 38988, 12301, 21644, 12300, 38283, 22987, 26178,
     38291, 12301, 25165, 33021, 28858, 24744, 26032, 22686, 34892, 31243, 21908, 65281]"

definition msg_event_created_a :: jsstring where \<comment> \<open>single event created, before the summary\<close>
  "msg_event_created_a = [9989, 32, 34892, 31243, 26032, 22686, 25104, 21151, 65281, 10, 10,
     55357, 56517, 32]"

definition msg_event_created_b :: jsstring where \<comment> \<open>single event created, before the time\<close>
  "msg_event_created_b = [10, 55357, 56656, 32]"

definition msg_create_failed :: jsstring where \<comment> \<open>single event creation failed\<close>
  "msg_create_failed = [55357, 56517, 32, 25265, 27465, 65292, 26032, 22686, 34892, 31243,
     26178, 30332, 29983, 37679, 35492, 65292, 35531, 27298, 26597, 24744, 30340, 26178, 38291,
     26684, 24335, 26159, 21542, 27491, 30906, 12290]"

definition msg_need_query :: jsstring where \<comment> \<open>delete request without query\<close>
  "msg_need_query = [55358, 56596, 32, 35531, 21578, 35380, 25105, 35201, 21034, 38500, 21738,
     20491, 34892, 31243, 21602, 65311, 20363, 22914, 65306, 12300, 21034, 38500, 26126, 22825,
     30340, 26371, 35696, 12301, 12290]"

definition msg_not_found_a :: jsstring where \<comment> \<open>no event found, before the query\<close>
  "msg_not_found_a = [55357, 56589, 32, 25214, 19981, 21040, 33287, 12300]"

definition msg_not_found_b :: jsstring where \<comment> \<open>no event found, after the query\<close>
  "msg_not_found_b = [12301, 30456, 38364, 30340, 34892, 31243, 12290]"

definition msg_found_one_a :: jsstring where \<comment> \<open>one candidate, before the summary\<close>
  "msg_found_one_a = [25105, 21482, 25214, 21040, 19968, 20491, 34892, 31243, 31526, 21512,
     26781, 20214, 65306, 10, 10, 55357, 56517, 32]"

definition msg_found_one_b :: jsstring where \<comment> \<open>one candidate, question\<close>
  "msg_found_one_b = [10, 10, 30906, 23450, 35201, 21034, 38500, 23427, 21966, 65311, 40, 35531,
     22238, 35206, 39, 26159, 39, 25110, 39, 21542, 39, 41]"

definition msg_found_many_a :: jsstring where \<comment> \<open>several candidates, before the count\<close>
  "msg_found_many_a = [22909, 30340, 65292, 25105, 25214, 21040, 20102, 32]"

definition msg_found_many_b :: jsstring where \<comment> \<open>several candidates, after the count\<close>
  "msg_found_many_b = [32, 20491, 31526, 21512, 26781, 20214, 30340, 34892, 31243, 65306, 10,
     10]"

definition msg_found_many_c :: jsstring where \<comment> \<open>several candidates, question\<close>
  "msg_found_many_c = [10, 35531, 21839, 24744, 24819, 35201, 21034, 38500, 21738, 19968, 20491,
     65311, 32, 40, 21487, 20197, 22238, 35206, 25976, 23383, 65292, 20363, 22914, 32, 39, 49,
     44, 32, 51, 39, 12289, 39, 20840, 37096, 39, 32, 25110, 32, 39, 21462, 28040, 39, 41]"

definition msg_image_ack :: jsstring where \<comment> \<open>immediate acknowledgement of an image\<close>
  "msg_image_ack = [55357, 56396, 32, 24050, 25910, 21040, 24744, 30340, 22294, 29255, 65292,
     27491, 22312, 35531, 32, 65, 73, 32, 22823, 33126, 36914, 34892, 20998, 26512, 65292,
     35531, 31245, 20505, 46, 46, 46]"

definition msg_image_apology :: jsstring where \<comment> \<open>apology pushed when the background task fails\<close>
  "msg_image_apology = [55357, 56885, 32, 25265, 27465, 65292, 65, 73, 32, 22823, 33126, 22312,
     20998, 26512, 24744, 30340, 22294, 29255, 26178, 20284, 20046, 36935, 21040, 20102, 19968,
     40670, 22256, 38627, 65292, 35531, 31245, 24460, 20877, 35430, 19968, 27425, 12290]"

definition msg_note_ready_a :: jsstring where \<comment> \<open>note ready, before the title\<close>
  "msg_note_ready_a = [9989, 32, 20998, 26512, 23436, 25104, 65281, 10, 25105, 24050, 32147,
     25972, 29702, 22909, 24744, 38364, 26044, 12300]"

definition msg_note_ready_b :: jsstring where \<comment> \<open>note ready, after the title\<close>
  "msg_note_ready_b = [12301, 30340, 31558, 35352, 20102, 12290, 10, 10, 25509, 19979, 20358,
     65292, 24744, 24819, 20570, 20160, 40636, 21602, 65311, 10, 24744, 21487, 20197, 35430,
     33879, 35498, 65306, 10, 8226, 32, 12300, 24171, 25105, 29983, 25104, 24515, 26234, 22294,
     12289, 102, 108, 97, 115, 104, 99, 97, 114, 100, 12289, 25688, 35201, 12301, 10, 8226, 32,
     12300, 20986, 24190, 38988, 32771, 32771, 25105, 12301, 10, 8226, 32, 12300, 23559, 31558,
     35352, 27512, 27284, 21040, 12302, 91, 24744, 30340, 30446, 27161, 21517, 31281, 93, 12303,
     12301]"

definition default_note_title :: jsstring where \<comment> \<open>title used when the intent has no source\<close>
  "default_note_title = [36889, 20221, 36039, 26009]"

definition msg_no_complete_activity :: jsstring where \<comment> \<open>no complete activity could be extracted\<close>
  "msg_no_complete_activity = [55358, 56596, 32, 25265, 27465, 65292, 25105, 24478, 22294,
     29255, 20013, 28961, 27861, 25552, 21462, 20986, 20219, 20309, 23436, 25972, 30340, 27963,
     21205, 36039, 35338, 12290]"

definition msg_image_not_understood :: jsstring where \<comment> \<open>unknown action of an image intent\<close>
  "msg_image_not_understood = [55358, 56596, 32, 25265, 27465, 65292, 25105, 24478, 22294,
     29255, 20013, 30475, 19981, 20986, 21487, 20197, 24590, 40637, 21332, 21161, 24744, 12290]"

definition tmpl_header :: jsstring where \<comment> \<open>template heading\<close>
  "tmpl_header = [22909, 30340, 65292, 25105, 24478, 22294, 29255, 20013, 25214, 21040, 20102,
     36889, 20123, 27963, 21205, 65292, 20294, 26377, 20123, 26085, 26399, 19981, 28165, 26970,
     65292, 33021, 35531, 24744, 24171, 24537, 25552, 20379, 21966, 65311, 10, 10]"

definition tmpl_event_a :: jsstring where \<comment> \<open>template step, before the number\<close>
  "tmpl_event_a = [42, 42, 20107, 20214, 32]"

definition tmpl_event_b :: jsstring where \<comment> \<open>template step, after the number\<close>
  "tmpl_event_b = [58, 42, 42, 32]"

definition tmpl_date :: jsstring where \<comment> \<open>template step, date line\<close>
  "tmpl_date = [32, 32, 42, 42, 26085, 26399, 58, 42, 42, 32]"

definition tmpl_placeholder :: jsstring where \<comment> \<open>placeholder of a missing date\<close>
  "tmpl_placeholder = [12304, 35531, 24171, 25105, 22635, 23531, 36889, 20491, 26085, 26399,
     12305]"

definition tmpl_footer :: jsstring where \<comment> \<open>template closing hint\<close>
  "tmpl_footer = [24744, 21487, 20197, 20687, 36889, 27171, 22238, 35206, 65306, 12302, 20107,
     20214, 49, 30340, 26085, 26399, 26159, 56, 47, 49, 56, 65292, 20107, 20214, 50, 26159, 56,
     47, 50, 48, 12303]"

definition fmt_nothing :: jsstring where \<comment> \<open>formatter: nothing scheduled\<close>
  "fmt_nothing = [55357, 56517, 32, 22826, 22909, 20102, 65292, 36889, 27573, 26178, 38291,
     20839, 27794, 26377, 20219, 20309, 23433, 25490, 65281]"

definition fmt_single_a :: jsstring where \<comment> \<open>formatter, one date: before the date\<close>
  "fmt_single_a = [55357, 56517, 32, 24744, 22312, 32]"

definition fmt_single_b :: jsstring where \<comment> \<open>formatter, one date: before the count\<close>
  "fmt_single_b = [32, 26377, 32]"

definition fmt_single_c :: jsstring where \<comment> \<open>formatter, one date: after the count\<close>
  "fmt_single_c = [32, 20491, 34892, 31243, 58, 10]"

definition fmt_multi_a :: jsstring where \<comment> \<open>formatter, several dates: before the count\<close>
  "fmt_multi_a = [55357, 56517, 32, 28858, 24744, 25214, 21040, 36328, 36234, 22810, 26085,
     30340, 32]"

definition fmt_multi_b :: jsstring where \<comment> \<open>formatter, several dates: after the count\<close>
  "fmt_multi_b = [32, 20491, 34892, 31243, 65306, 10]"

definition fmt_clock :: jsstring where \<comment> \<open>formatter: time suffix\<close>
  "fmt_clock = [10, 32, 32, 32, 55357, 56656, 32]"

definition fmt_all_day :: jsstring where \<comment> \<open>formatter: all-day suffix\<close>
  "fmt_all_day = [32, 40, 20840, 22825, 41]"

definition llm_understand_fallback :: jsstring where \<comment> \<open>understandAndPlan: response of the fallback intent\<close>
  "llm_understand_fallback = [25265, 27465, 65292, 25105, 30340, 32, 65, 73, 32, 22823, 33126,
     26283, 26178, 30701, 36335, 20102, 65292, 35531, 31245, 24460, 20877, 35430, 19968, 27425,
     12290]"

definition llm_modify_fallback :: jsstring where \<comment> \<open>modifyPlan: response of the fallback intent\<close>
  "llm_modify_fallback = [25265, 27465, 65292, 25105, 22312, 20462, 25913, 35336, 30059, 26178,
     36935, 21040, 20102, 19968, 20123, 22256, 38627, 65292, 35531, 24744, 37325, 26032, 25552,
     20986, 19968, 27425, 23436, 25972, 30340, 35215, 21123, 38656, 27714, 12290]"

definition llm_image_fallback :: jsstring where \<comment> \<open>analyzeImageAndPlan: response of the fallback intent\<close>
  "llm_image_fallback = [25265, 27465, 65292, 25105, 28961, 27861, 25104, 21151, 36776, 35672,
     36889, 24373, 22294, 29255, 30340, 20839, 23481, 65292, 35531, 24744, 25563, 19968, 24373,
     22294, 29255, 25110, 30452, 25509, 29992, 25991, 23383, 21578, 35380, 25105, 38656, 27714,
     12290]"

definition llm_knowledge_fallback :: jsstring where \<comment> \<open>processKnowledge: fallback text\<close>
  "llm_knowledge_fallback = [25265, 27465, 65292, 25105, 22312, 34389, 29702, 24744, 30340,
     35531, 27714, 26178, 36935, 21040, 20102, 19968, 20123, 22256, 38627, 65292, 35531, 31245,
     24460, 20877, 35430, 12290]"

definition llm_merge_error :: jsstring where \<comment> \<open>mergePlanWithCorrection: error field of the fallback\<close>
  "llm_merge_error = [21512, 20341, 20462, 27491, 26178, 30332, 29983, 37679, 35492]"

definition pureConfirmTerms :: "jsstring list" where
  "pureConfirmTerms = [[22909], [21487, 20197], [111, 107], [27794, 21839, 38988], [26159,
     30340], [21516, 24847], [22909, 21834], [21487, 20197, 21834]]"

definition negativeResponses :: "jsstring list" where
  "negativeResponses = [[19981, 29992], [21462, 28040], [19981, 35201], [19981, 23565]]"

section \<open>Data model\<close>

text \<open>
  A number of the runtime is a double. \<open>Finite q\<close> is the double whose value is the
  rational \<open>q\<close>; \<open>NotFinite\<close> stands for what arithmetic cannot turn into a time value:
  an infinity (\<open>JSON.parse\<close> reads \<open>1e999\<close> as one) or \<open>NaN\<close>.
\<close>

datatype number = Finite rat | NotFinite

text \<open>
  \<open>PlanEvent\<close> of the calendar handler. A field that the JSON object does not carry is
  \<open>None\<close>.
\<close>

record planEvent =
  summary :: "jsstring option"
  date :: "jsstring option"
  startTime :: "jsstring option"
  duration_hours :: "number option"
  objectiveId :: "nat option"

text \<open>
  The parameters of an intent. The fields \<open>summary\<close>, \<open>date\<close>, \<open>startTime\<close>,
  \<open>duration_hours\<close> and \<open>objectiveId\<close> are kept together as \<open>p_event\<close>, since the image
  path stores \<open>[intent.params]\<close> as a plan.
\<close>

record params =
  p_response :: "jsstring option"
  p_timeRange :: "jsstring option"
  p_query :: "jsstring option"
  p_title :: "jsstring option"
  p_dueDate :: "jsstring option"
  p_objectiveTitle :: "jsstring option"
  p_endTime :: "jsstring option"
  p_event :: planEvent

text \<open>
  The intent parsed from the answer of the language model. \<open>i_plan = None\<close> stands for a
  missing plan or one that is not an array; the fields carry the prefix \<open>i_\<close>.
\<close>

record intent =
  i_action :: "jsstring option"
  i_plan :: "planEvent list option"
  i_objectiveTitle :: "jsstring option"
  i_params :: "params option"
  i_error :: "jsstring option"
  i_source :: "jsstring option"

record eventDateTime =
  dt_date :: "jsstring option"
  dt_dateTime :: "jsstring option"

record calEvent =
  ev_id :: jsstring
  ev_summary :: jsstring
  ev_start :: eventDateTime
  ev_end :: eventDateTime

record objective =
  objective_id :: nat
  ob_title :: jsstring
  due_date :: "jsstring option"

type_synonym knowledge = jsstring
type_synonym image = "nat list"

text \<open>
  The conversation state as the handler writes and reads it: an object with a
  \<open>status\<close> and the field that belongs to it. \<open>null\<close> (Idle) is \<open>None\<close> of
  \<open>userState option\<close>.
\<close>

record userState =
  us_status :: "jsstring option"
  us_plan :: "planEvent list option"
  us_events :: "calEvent list option"
  us_partialPlan :: "intent option"
  us_noteId :: "nat option"

text \<open>
  The column \<open>state_json\<close> of the user row, classified by what
  \<open>user.state_json ? JSON.parse(user.state_json) : null\<close> does with it: \<open>Absent\<close> is
  \<open>null\<close> or the empty string, \<open>Malformed\<close> is a text on which \<open>JSON.parse\<close> raises
  \<open>SyntaxError\<close>, \<open>Falsy\<close> is a text that parses to a falsy value, and \<open>Stored st\<close>
  parses to the object \<open>st\<close> (a truthy value that is no object has no \<open>status\<close>).
\<close>

datatype stateJson = Absent | Malformed | Falsy | Stored userState

record user =
  user_id :: nat
  line_user_id :: jsstring
  state_json :: stateJson

record userContext =
  rowNumber :: nat
  uc_user :: user

text \<open>
  A date-time text sent to the calendar: either a text taken from the intent as it is, or
  \<open>toISOString()\<close> of the \<open>Date\<close> with the given time value (milliseconds since the
  epoch).
\<close>

datatype dateTimeText = Verbatim jsstring | IsoOf int

record eventData =
  ed_summary :: "jsstring option"
  ed_start :: dateTimeText
  ed_end :: dateTimeText

text \<open>\<open>selection\<close> of \<open>parseDeletionChoice\<close>: \<open>number[] | 'all' | 'none'\<close>.\<close>

datatype selection = SelAll | SelNone | SelIndices "int list"

section \<open>External collaborators and their effects\<close>

text \<open>
  Every call that leaves the handler is an entry of the trace, with the flag whether it
  returned normally. The collaborators are parameters: each answers a call from the trace
  of all earlier calls and the arguments, so that an answer may depend on everything that
  happened before, and either raises or returns.
\<close>

datatype call =
    SetUserState nat "userState option"
  | FindObjectiveByTitle nat "jsstring option"
  | LinkNoteToObjective nat nat
  | GetKnowledgeNoteById nat
  | CreateLearningObjective nat jsstring "jsstring option"
  | LinkEventToObjective nat jsstring
  | SaveKnowledgeNote nat intent
  | LlmUnderstand jsstring
  | LlmModifyPlan "planEvent list option" jsstring
  | LlmDeletionChoice jsstring nat
  | LlmMerge "intent option" jsstring
  | LlmKnowledge knowledge jsstring
  | LlmObjectivePlan jsstring
  | LlmImage image
  | CalendarList jsstring
  | CalendarInsert eventData
  | CalendarSearch jsstring
  | CalendarDelete jsstring
  | LinePush jsstring jsstring

type_synonym trace = "(call \<times> bool) list"

record env =
  sheet_setUserState :: "trace \<Rightarrow> nat \<Rightarrow> userState option \<Rightarrow> exn + unit"
  sheet_findObjectiveByTitle ::
    "trace \<Rightarrow> nat \<Rightarrow> jsstring option \<Rightarrow> exn + objective option"
  sheet_linkNoteToObjective :: "trace \<Rightarrow> nat \<Rightarrow> nat \<Rightarrow> exn + unit"
  sheet_getKnowledgeNoteById :: "trace \<Rightarrow> nat \<Rightarrow> exn + knowledge option"
  sheet_createLearningObjective ::
    "trace \<Rightarrow> nat \<Rightarrow> jsstring \<Rightarrow> jsstring option \<Rightarrow> exn + objective"
  sheet_linkEventToObjective :: "trace \<Rightarrow> nat \<Rightarrow> jsstring \<Rightarrow> exn + unit"
  sheet_saveKnowledgeNote :: "trace \<Rightarrow> nat \<Rightarrow> intent \<Rightarrow> exn + nat"
  llm_understand :: "trace \<Rightarrow> jsstring \<Rightarrow> exn + intent"
  llm_modify :: "trace \<Rightarrow> planEvent list option \<Rightarrow> jsstring \<Rightarrow> exn + (planEvent list + intent)"
  llm_choice :: "trace \<Rightarrow> jsstring \<Rightarrow> nat \<Rightarrow> exn + selection"
  llm_merge :: "trace \<Rightarrow> intent option \<Rightarrow> jsstring \<Rightarrow> exn + intent"
  llm_knowledge :: "trace \<Rightarrow> knowledge \<Rightarrow> jsstring \<Rightarrow> exn + jsstring"
  llm_objectivePlan :: "trace \<Rightarrow> jsstring \<Rightarrow> exn + intent"
  llm_image :: "trace \<Rightarrow> image \<Rightarrow> exn + intent"
  calendar_list :: "trace \<Rightarrow> jsstring \<Rightarrow> exn + calEvent list"
  calendar_insert :: "trace \<Rightarrow> eventData \<Rightarrow> exn + calEvent"
  calendar_search :: "trace \<Rightarrow> jsstring \<Rightarrow> exn + calEvent list"
  calendar_delete :: "trace \<Rightarrow> jsstring \<Rightarrow> exn + unit"
  line_push :: "trace \<Rightarrow> jsstring \<Rightarrow> jsstring \<Rightarrow> exn + unit"

text \<open>
  The parts of the JavaScript runtime that the handler relies on and that are not
  modelled further: the clock, the offset of the local time zone (taken as fixed, in
  milliseconds: local time = UTC + offset), \<open>Date.parse\<close> (\<open>None\<close> is an invalid date;
  what it gives otherwise is a time value, inside the range of \<open>Date\<close>),
  lower-casing, the locale-dependent renderings of a \<open>Date\<close> (called with \<open>None\<close>
  for an invalid date) and of a number, and the arithmetic of doubles: the product and
  the sum of two finite doubles, rounded to a double, \<open>NotFinite\<close> on overflow.
\<close>

record runtime =
  now :: int
  tzOffset :: int
  parseDate :: "jsstring \<Rightarrow> int option"
  toLowerCase :: "jsstring \<Rightarrow> jsstring"
  isoDate :: "int \<Rightarrow> jsstring"
  localeDate :: "int option \<Rightarrow> jsstring"
  localeLongDate :: "int option \<Rightarrow> jsstring"
  localeDateTime :: "int option \<Rightarrow> jsstring"
  localeDateTimeTaipei :: "int option \<Rightarrow> jsstring"
  localeTime :: "int option \<Rightarrow> jsstring"
  showNumber :: "number \<Rightarrow> jsstring"
  doubleTimes :: "rat \<Rightarrow> rat \<Rightarrow> number"
  doublePlus :: "rat \<Rightarrow> rat \<Rightarrow> number"

text \<open>
  Computations with effects: a function from the trace so far to a result, which is an
  exception (\<open>Inl\<close>) or a value (\<open>Inr\<close>), and the extended trace.
\<close>

type_synonym 'a io = "trace \<Rightarrow> (exn + 'a) \<times> trace"

definition ret :: "'a \<Rightarrow> 'a io" where
  "ret x = (\<lambda>tr. (Inr x, tr))"

definition throw :: "exn \<Rightarrow> 'a io" where
  "throw e = (\<lambda>tr. (Inl e, tr))"

definition bind :: "'a io \<Rightarrow> ('a \<Rightarrow> 'b io) \<Rightarrow> 'b io" where
  "bind m f = (\<lambda>tr. case m tr of (Inl e, tr') \<Rightarrow> (Inl e, tr') | (Inr x, tr') \<Rightarrow> f x tr')"

definition catch :: "'a io \<Rightarrow> (exn \<Rightarrow> 'a io) \<Rightarrow> 'a io" where
  "catch m h = (\<lambda>tr. case m tr of (Inl e, tr') \<Rightarrow> h e tr' | (Inr x, tr') \<Rightarrow> (Inr x, tr'))"

definition lift :: "exn + 'a \<Rightarrow> 'a io" where
  "lift r = (\<lambda>tr. (r, tr))"

definition extern :: "call \<Rightarrow> (trace \<Rightarrow> exn + 'a) \<Rightarrow> 'a io" where
  "extern c answer = (\<lambda>tr. case answer tr of
       Inl e \<Rightarrow> (Inl e, tr @ [(c, False)])
     | Inr x \<Rightarrow> (Inr x, tr @ [(c, True)]))"

section \<open>Dates\<close>

text \<open>
  A \<open>Date\<close> is its time value in milliseconds since the epoch (UTC); the methods that
  read or set calendar fields work in local time. A time value is valid up to
  \<open>maxTime\<close> milliseconds either side of the epoch; the \<open>Date\<close> constructor makes an
  invalid date of anything else, and \<open>toISOString\<close> of an invalid date raises
  \<open>RangeError\<close>. The clock, and the cursor that \<open>handleCreatePlan\<close> moves forward from it
  day by day, are assumed to stay inside that range, which holds for every date within
  270000 years of 1970; the end of an event, which depends on the \<open>duration_hours\<close> of the
  request, is checked. Day 0 (1 January 1970) was a Thursday, and \<open>getDay\<close> counts from
  Sunday = 0.
\<close>

definition maxTime :: int where
  "maxTime = 8640000000000000"

definition msPerDay :: int where
  "msPerDay = 86400000"

definition msPerHour :: int where
  "msPerHour = 3600000"

definition localDay :: "runtime \<Rightarrow> int \<Rightarrow> int" where
  "localDay rt t = (t + tzOffset rt) div msPerDay"


definition getDay :: "runtime \<Rightarrow> int \<Rightarrow> int" where
  "getDay rt t = (localDay rt t + 4) mod 7"

text \<open>\<open>d.setDate(d.getDate() + 1)\<close>\<close>

definition nextDay :: "int \<Rightarrow> int" where
  "nextDay t = t + msPerDay"

text \<open>\<open>d.setHours(9, 0, 0, 0)\<close>\<close>

definition setHours9 :: "runtime \<Rightarrow> int \<Rightarrow> int" where
  "setHours9 rt t = localDay rt t * msPerDay + 9 * msPerHour - tzOffset rt"

text \<open>
  \<open>while (d.getDay() === 0 || d.getDay() === 6) d.setDate(d.getDate() + 1)\<close>
\<close>

function skipWeekend :: "runtime \<Rightarrow> int \<Rightarrow> int" where
  "skipWeekend rt t =
     (if getDay rt t = 0 \<or> getDay rt t = 6 then skipWeekend rt (nextDay t) else t)"
  by pat_completeness auto
termination
proof (relation "measure (\<lambda>(rt, t). if getDay rt t = 6 then 2 else if getDay rt t = 0 then 1 else 0)")
  show "wf (measure (\<lambda>(rt, t). if getDay rt t = 6 then 2 else if getDay rt t = 0 then 1 else (0::nat)))"
    by simp
next
  fix rt :: runtime and t :: int
  assume wk: "getDay rt t = 0 \<or> getDay rt t = 6"
  have "localDay rt (nextDay t) = localDay rt t + 1"
    by (simp add: localDay_def nextDay_def msPerDay_def add.assoc add.commute add.left_commute)
  then have "getDay rt (nextDay t) = (getDay rt t + 1) mod 7"
    by (simp add: getDay_def add.commute add.left_commute mod_simps)
  with wk show "((rt, nextDay t), (rt, t))
      \<in> measure (\<lambda>(rt, t). if getDay rt t = 6 then 2 else if getDay rt t = 0 then 1 else 0)"
    by auto
qed

declare skipWeekend.simps [simp del]

text \<open>\<open>new Date(s)\<close> for a text that may be missing: \<open>new Date(undefined)\<close> is invalid.\<close>

definition dateOf :: "runtime \<Rightarrow> jsstring option \<Rightarrow> int option" where
  "dateOf rt s = (case s of None \<Rightarrow> None | Some x \<Rightarrow> parseDate rt x)"

text \<open>\<open>item.duration_hours || 1\<close>: zero is falsy, an infinity is not.\<close>

fun durationOr1 :: "number option \<Rightarrow> number" where
  "durationOr1 None = Finite 1"
| "durationOr1 (Some (Finite q)) = (if q = 0 then Finite 1 else Finite q)"
| "durationOr1 (Some NotFinite) = NotFinite"

text \<open>
  \<open>a * b\<close> and \<open>a + b\<close> where the one operand is a finite double known in advance (a
  constant, or the time value of a valid date).
\<close>

definition jsTimes :: "runtime \<Rightarrow> number \<Rightarrow> rat \<Rightarrow> number" where
  "jsTimes rt a b = (case a of NotFinite \<Rightarrow> NotFinite | Finite x \<Rightarrow> doubleTimes rt x b)"

definition jsPlus :: "runtime \<Rightarrow> rat \<Rightarrow> number \<Rightarrow> number" where
  "jsPlus rt a b = (case b of NotFinite \<Rightarrow> NotFinite | Finite y \<Rightarrow> doublePlus rt a y)"

text \<open>
  The time value of \<open>new Date(v)\<close> for a number \<open>v\<close>: \<open>None\<close>, an invalid date, when \<open>v\<close>
  is not finite or lies outside the range; otherwise \<open>v\<close> without its fraction (towards
  zero).
\<close>

definition timeClip :: "number \<Rightarrow> int option" where
  "timeClip v =
     (case v of
        NotFinite \<Rightarrow> None
      | Finite q \<Rightarrow>
          if \<bar>q\<bar> > of_int maxTime then None
          else Some (if 0 \<le> q then \<lfloor>q\<rfloor> else \<lceil>q\<rceil>))"

section \<open>Calendar service\<close>

text \<open>
  \<open>GoogleCalendarService\<close>: \<open>createEvent\<close> rethrows, \<open>deleteEventById\<close> raises an error
  of its own, \<open>listEvents\<close> and \<open>searchEvents\<close> answer the empty list on failure.
\<close>

definition createEvent :: "env \<Rightarrow> eventData \<Rightarrow> calEvent io" where
  "createEvent env eventData =
     catch (extern (CalendarInsert eventData) (\<lambda>tr. calendar_insert env tr eventData))
       (\<lambda>e. throw e)"

definition deleteEventById :: "env \<Rightarrow> jsstring \<Rightarrow> unit io" where
  "deleteEventById env eventId =
     catch (extern (CalendarDelete eventId) (\<lambda>tr. calendar_delete env tr eventId))
       (\<lambda>e. throw ServiceError)"

definition listEvents :: "env \<Rightarrow> jsstring \<Rightarrow> calEvent list io" where
  "listEvents env timeRange =
     catch (extern (CalendarList timeRange) (\<lambda>tr. calendar_list env tr timeRange))
       (\<lambda>e. ret [])"

definition searchEvents :: "env \<Rightarrow> jsstring \<Rightarrow> calEvent list io" where
  "searchEvents env query =
     catch (extern (CalendarSearch query) (\<lambda>tr. calendar_search env tr query))
       (\<lambda>e. ret [])"

section \<open>Sheet service\<close>

definition setUserState :: "env \<Rightarrow> nat \<Rightarrow> userState option \<Rightarrow> unit io" where
  "setUserState env row st = extern (SetUserState row st) (\<lambda>tr. sheet_setUserState env tr row st)"

definition findObjectiveByTitle ::
  "env \<Rightarrow> nat \<Rightarrow> jsstring option \<Rightarrow> objective option io" where
  "findObjectiveByTitle env uid t =
     extern (FindObjectiveByTitle uid t) (\<lambda>tr. sheet_findObjectiveByTitle env tr uid t)"

definition linkNoteToObjective :: "env \<Rightarrow> nat \<Rightarrow> nat \<Rightarrow> unit io" where
  "linkNoteToObjective env nid oid =
     extern (LinkNoteToObjective nid oid) (\<lambda>tr. sheet_linkNoteToObjective env tr nid oid)"

definition getKnowledgeNoteById :: "env \<Rightarrow> nat \<Rightarrow> knowledge option io" where
  "getKnowledgeNoteById env nid =
     extern (GetKnowledgeNoteById nid) (\<lambda>tr. sheet_getKnowledgeNoteById env tr nid)"

definition createLearningObjective ::
  "env \<Rightarrow> nat \<Rightarrow> jsstring \<Rightarrow> jsstring option \<Rightarrow> objective io" where
  "createLearningObjective env uid t due =
     extern (CreateLearningObjective uid t due)
       (\<lambda>tr. sheet_createLearningObjective env tr uid t due)"

definition linkEventToObjective :: "env \<Rightarrow> nat \<Rightarrow> jsstring \<Rightarrow> unit io" where
  "linkEventToObjective env oid eid =
     extern (LinkEventToObjective oid eid) (\<lambda>tr. sheet_linkEventToObjective env tr oid eid)"

definition saveKnowledgeNote :: "env \<Rightarrow> nat \<Rightarrow> intent \<Rightarrow> nat io" where
  "saveKnowledgeNote env uid i =
     extern (SaveKnowledgeNote uid i) (\<lambda>tr. sheet_saveKnowledgeNote env tr uid i)"

section \<open>Committing a plan\<close>

text \<open>
  The start of one step and the cursor after it. A step with a \<open>date\<close> starts at
  \<open>new Date(item.date + 'T09:00:00')\<close>, one with a \<open>startTime\<close> at
  \<open>new Date(item.startTime)\<close>; both leave the cursor alone. Any other step takes the
  next day of the cursor that is no Saturday or Sunday, and moves the cursor to the day
  after. \<open>None\<close> is an invalid date.
\<close>

definition scheduleStep :: "runtime \<Rightarrow> int \<Rightarrow> planEvent \<Rightarrow> int option \<times> int" where
  "scheduleStep rt nextAvailableDate item =
     (if truthyS (date item) then
        (parseDate rt (render (date item) @ ascii ''T09:00:00''), nextAvailableDate)
      else if truthyS (startTime item) then
        (parseDate rt (render (startTime item)), nextAvailableDate)
      else
        (let d = skipWeekend rt nextAvailableDate in (Some d, nextDay d)))"

text \<open>
  \<open>new Date(eventStart.getTime() + (item.duration_hours || 1) * 60 * 60 * 1000)\<close>
\<close>

definition eventEndOf :: "runtime \<Rightarrow> planEvent \<Rightarrow> int \<Rightarrow> int option" where
  "eventEndOf rt item eventStart =
     timeClip (jsPlus rt (of_int eventStart)
       (jsTimes rt (jsTimes rt (jsTimes rt (durationOr1 (duration_hours item)) 60) 60) 1000))"

text \<open>
  The event data of a step with a valid start. It is built before the \<open>try\<close> block, and
  \<open>eventEnd.toISOString()\<close> raises \<open>RangeError\<close> when the end is an invalid date.
\<close>

definition eventDataOf :: "runtime \<Rightarrow> planEvent \<Rightarrow> int \<Rightarrow> exn + eventData" where
  "eventDataOf rt item eventStart =
     (case eventEndOf rt item eventStart of
        None \<Rightarrow> Inl RangeError
      | Some eventEnd \<Rightarrow>
          Inr \<lparr> ed_summary = summary item,
                ed_start = IsoOf eventStart,
                ed_end = IsoOf eventEnd \<rparr>)"

text \<open>
  The \<open>try\<close> block inside the loop of \<open>handleCreatePlan\<close>: \<open>createEvent\<close>, the
  increment of the counter, and \<open>linkEventToObjective\<close> when the step has an objective.
  Whatever is raised there is dropped by the \<open>catch\<close>; the counter keeps the increment
  when only the link fails. The result is the counter after the block.
\<close>

definition tryCreateEvent :: "env \<Rightarrow> planEvent \<Rightarrow> eventData \<Rightarrow> nat \<Rightarrow> nat io" where
  "tryCreateEvent env item eventData createdCount =
     catch
       (bind (createEvent env eventData)
         (\<lambda>createdEvent.
            catch
              (bind
                (if truthyN (objectiveId item)
                 then linkEventToObjective env (the (objectiveId item)) (ev_id createdEvent)
                 else ret ())
                (\<lambda>_. ret (Suc createdCount)))
              (\<lambda>e. ret (Suc createdCount))))
       (\<lambda>e. ret createdCount)"

text \<open>
  The loop of \<open>handleCreatePlan\<close> with its two variables, the cursor and the counter.
  \<open>toISOString\<close> of an invalid start or of an invalid end raises \<open>RangeError\<close> outside the
  \<open>try\<close> block: the loop stops there, before the step reaches the calendar, and the
  steps after it are never looked at.
\<close>

fun createPlanLoop :: "runtime \<Rightarrow> env \<Rightarrow> int \<Rightarrow> nat \<Rightarrow> planEvent list \<Rightarrow> nat io" where
  "createPlanLoop rt env nextAvailableDate createdCount [] = ret createdCount"
| "createPlanLoop rt env nextAvailableDate createdCount (item # rest) =
     (case scheduleStep rt nextAvailableDate item of
        (None, cursor) \<Rightarrow> throw RangeError
      | (Some eventStart, cursor) \<Rightarrow>
          bind (lift (eventDataOf rt item eventStart))
            (\<lambda>eventData.
               bind (tryCreateEvent env item eventData createdCount)
                 (\<lambda>n. createPlanLoop rt env cursor n rest)))"

definition handleCreatePlan :: "runtime \<Rightarrow> env \<Rightarrow> planEvent list \<Rightarrow> jsstring io" where
  "handleCreatePlan rt env plan =
     bind (createPlanLoop rt env (setHours9 rt (nextDay (now rt))) 0 plan)
       (\<lambda>createdCount.
          ret (if createdCount > 0
               then msg_created_a @ showNat createdCount @ msg_created_b
               else msg_none_created))"

section \<open>Response formatter\<close>

text \<open>\<open>a || b\<close> on optional strings.\<close>

definition orElse :: "jsstring option \<Rightarrow> jsstring option \<Rightarrow> jsstring option" where
  "orElse a b = (if truthyS a then a else b)"

text \<open>
  \<open>formatEventTime\<close>: a time range for an event with a \<open>dateTime\<close>, the all-day suffix
  otherwise.
\<close>

definition formatEventTime :: "runtime \<Rightarrow> calEvent \<Rightarrow> jsstring" where
  "formatEventTime rt event =
     (if truthyS (dt_dateTime (ev_start event)) then
        (let startTime = localeTime rt (parseDate rt (render (dt_dateTime (ev_start event))));
             endTime = (if truthyS (dt_dateTime (ev_end event))
                        then localeTime rt (parseDate rt (render (dt_dateTime (ev_end event))))
                        else [])
         in if endTime \<noteq> [] then fmt_clock @ startTime @ ascii '' - '' @ endTime
            else fmt_clock @ startTime)
      else fmt_all_day)"

text \<open>
  The \<open>Map\<close> from date keys to the events of that date keeps its keys in the order of
  their first insertion: an association list. \<open>addToGroup\<close> is
  \<open>if (!m.has(k)) m.set(k, []); m.get(k).push(e)\<close>.
\<close>

type_synonym groups = "(jsstring \<times> calEvent list) list"

fun addToGroup :: "jsstring \<Rightarrow> calEvent \<Rightarrow> groups \<Rightarrow> groups" where
  "addToGroup k e [] = [(k, [e])]"
| "addToGroup k e ((k', es) # m) =
     (if k = k' then (k', es @ [e]) # m else (k', es) # addToGroup k e m)"

text \<open>
  The grouping loop. An event without a start is skipped; \<open>toISOString\<close> of an invalid
  start raises \<open>RangeError\<close>.
\<close>

fun groupEvents :: "runtime \<Rightarrow> calEvent list \<Rightarrow> groups \<Rightarrow> exn + groups" where
  "groupEvents rt [] eventsByDate = Inr eventsByDate"
| "groupEvents rt (event # rest) eventsByDate =
     (let startDateTime = orElse (dt_dateTime (ev_start event)) (dt_date (ev_start event)) in
      if \<not> truthyS startDateTime then groupEvents rt rest eventsByDate
      else (case parseDate rt (render startDateTime) of
              None \<Rightarrow> Inl RangeError
            | Some eventDate \<Rightarrow>
                groupEvents rt rest (addToGroup (isoDate rt eventDate) event eventsByDate)))"

definition formatSingleDay :: "runtime \<Rightarrow> jsstring \<Rightarrow> calEvent list \<Rightarrow> jsstring" where
  "formatSingleDay rt dateKey dailyEvents =
     fmt_single_a @ localeDate rt (parseDate rt (dateKey @ ascii ''T00:00:00''))
     @ fmt_single_b @ showNat (length dailyEvents) @ fmt_single_c
     @ concat (map (\<lambda>(index, event).
          [10] @ showNat (index + 1) @ ascii ''. '' @ ev_summary event @ formatEventTime rt event)
        (enumerate 0 dailyEvents))"

definition formatDaySection :: "runtime \<Rightarrow> jsstring \<Rightarrow> calEvent list \<Rightarrow> jsstring" where
  "formatDaySection rt dateKey dailyEvents =
     ascii [CHR 0x0A] @ ascii ''--- ''
     @ localeLongDate rt (parseDate rt (dateKey @ ascii ''T00:00:00'')) @ ascii '' ---'' @ [10]
     @ concat (map (\<lambda>event.
          ascii ''  - '' @ ev_summary event @ formatEventTime rt event @ [10]) dailyEvents)"

text \<open>
  The second half of \<open>formatEventsForLine\<close>, after the grouping. With exactly one
  date key the events of that date are numbered; otherwise there is one section per key,
  the keys sorted by \<open>Array.sort\<close> (code unit order) and each looked up in the map.
  \<open>n\<close> is \<open>events.length\<close>.
\<close>

definition formatGroups :: "runtime \<Rightarrow> nat \<Rightarrow> groups \<Rightarrow> jsstring" where
  "formatGroups rt n eventsByDate =
     (case eventsByDate of
        [(dateKey, dailyEvents)] \<Rightarrow> formatSingleDay rt dateKey dailyEvents
      | _ \<Rightarrow>
          fmt_multi_a @ showNat n @ fmt_multi_b
          @ concat (map (\<lambda>dateKey.
               formatDaySection rt dateKey (the (map_of eventsByDate dateKey)))
             (sort (map fst eventsByDate))))"

definition formatEventsForLine :: "runtime \<Rightarrow> calEvent list \<Rightarrow> exn + jsstring" where
  "formatEventsForLine rt events =
     (if events = [] then Inr fmt_nothing
      else (case groupEvents rt events [] of
              Inl e \<Rightarrow> Inl e
            | Inr eventsByDate \<Rightarrow> Inr (formatGroups rt (length events) eventsByDate)))"

section \<open>The planner: calls of the language model with their fallbacks\<close>

definition emptyPlanEvent :: planEvent where
  "emptyPlanEvent = \<lparr> summary = None, date = None, startTime = None, duration_hours = None,
     objectiveId = None \<rparr>"

definition emptyParams :: params where
  "emptyParams = \<lparr> p_response = None, p_timeRange = None, p_query = None, p_title = None,
     p_dueDate = None, p_objectiveTitle = None, p_endTime = None, p_event = emptyPlanEvent \<rparr>"

definition emptyIntent :: intent where
  "emptyIntent = \<lparr> i_action = None, i_plan = None, i_objectiveTitle = None, i_params = None,
     i_error = None, i_source = None \<rparr>"

text \<open>\<open>{ action: 'clarify_or_reject', params: { response: text } }\<close>\<close>

definition clarifyIntent :: "jsstring \<Rightarrow> intent" where
  "clarifyIntent text =
     emptyIntent \<lparr> i_action := Some (ascii ''clarify_or_reject''),
                   i_params := Some (emptyParams \<lparr> p_response := Some text \<rparr>) \<rparr>"

text \<open>\<open>{ action: 'plan_complex_task', plan: p }\<close>\<close>

definition planIntent :: "planEvent list \<Rightarrow> intent" where
  "planIntent p = emptyIntent \<lparr> i_action := Some (ascii ''plan_complex_task''), i_plan := Some p \<rparr>"

text \<open>
  Each method asks the model and parses the answer inside a \<open>try\<close>; the \<open>catch\<close>
  answers with a fixed fallback, so that no method raises.
\<close>

definition understandAndPlan :: "env \<Rightarrow> jsstring \<Rightarrow> intent io" where
  "understandAndPlan env userInput =
     catch (extern (LlmUnderstand userInput) (\<lambda>tr. llm_understand env tr userInput))
       (\<lambda>e. ret (clarifyIntent llm_understand_fallback))"

text \<open>
  \<open>modifyPlan\<close>: an answer that is an array becomes the plan of a
  \<open>plan_complex_task\<close>; an object without an action gets that action.
\<close>

definition modifyPlan :: "env \<Rightarrow> planEvent list option \<Rightarrow> jsstring \<Rightarrow> intent io" where
  "modifyPlan env originalPlan modificationRequest =
     catch
       (bind (extern (LlmModifyPlan originalPlan modificationRequest)
                (\<lambda>tr. llm_modify env tr originalPlan modificationRequest))
          (\<lambda>parsedJson. case parsedJson of
               Inl array \<Rightarrow> ret (planIntent array)
             | Inr object \<Rightarrow>
                 ret (if \<not> truthyS (i_action object)
                      then object \<lparr> i_action := Some (ascii ''plan_complex_task'') \<rparr>
                      else object)))
       (\<lambda>e. ret (clarifyIntent llm_modify_fallback))"

definition parseDeletionChoice :: "env \<Rightarrow> jsstring \<Rightarrow> nat \<Rightarrow> selection io" where
  "parseDeletionChoice env selectionRequest numberOfOptions =
     catch (extern (LlmDeletionChoice selectionRequest numberOfOptions)
              (\<lambda>tr. llm_choice env tr selectionRequest numberOfOptions))
       (\<lambda>e. ret SelNone)"

text \<open>\<open>mergePlanWithCorrection\<close>: the fallback is \<open>{ ...partialPlan, error: text }\<close>.\<close>

definition mergePlanWithCorrection :: "env \<Rightarrow> intent option \<Rightarrow> jsstring \<Rightarrow> intent io" where
  "mergePlanWithCorrection env partial userCorrection =
     catch (extern (LlmMerge partial userCorrection) (\<lambda>tr. llm_merge env tr partial userCorrection))
       (\<lambda>e. ret ((case partial of None \<Rightarrow> emptyIntent | Some p \<Rightarrow> p)
                    \<lparr> i_error := Some llm_merge_error \<rparr>))"

definition processKnowledge :: "env \<Rightarrow> knowledge \<Rightarrow> jsstring \<Rightarrow> jsstring io" where
  "processKnowledge env knowledgeData goal =
     catch (extern (LlmKnowledge knowledgeData goal) (\<lambda>tr. llm_knowledge env tr knowledgeData goal))
       (\<lambda>e. ret llm_knowledge_fallback)"

definition generatePlanForObjective :: "env \<Rightarrow> jsstring \<Rightarrow> intent io" where
  "generatePlanForObjective env t =
     catch (extern (LlmObjectivePlan t) (\<lambda>tr. llm_objectivePlan env tr t))
       (\<lambda>e. ret (planIntent []))"

definition analyzeImageAndPlan :: "env \<Rightarrow> image \<Rightarrow> intent io" where
  "analyzeImageAndPlan env imageBuffer =
     catch (extern (LlmImage imageBuffer) (\<lambda>tr. llm_image env tr imageBuffer))
       (\<lambda>e. ret (clarifyIntent llm_image_fallback))"

section \<open>Line handler\<close>

text \<open>\<open>LineHandler.pushMessage\<close> rethrows what the client raises.\<close>

definition pushMessage :: "env \<Rightarrow> jsstring \<Rightarrow> jsstring \<Rightarrow> unit io" where
  "pushMessage env userId text =
     catch (extern (LinePush userId text) (\<lambda>tr. line_push env tr userId text))
       (\<lambda>e. throw e)"

section \<open>Calendar handler: rendering of plans\<close>

text \<open>Truthiness of an optional number (\<open>if (item.duration_hours)\<close>).\<close>

fun truthyQ :: "number option \<Rightarrow> bool" where
  "truthyQ None = False"
| "truthyQ (Some (Finite q)) = (q \<noteq> 0)"
| "truthyQ (Some NotFinite) = True"

definition formatPlanItem :: "runtime \<Rightarrow> nat \<Rightarrow> planEvent \<Rightarrow> jsstring" where
  "formatPlanItem rt index item =
     plan_stage_a @ showNat (index + 1) @ ascii '': '' @ render (summary item) @ plan_stage_b
     @ (if truthyS (date item)
        then plan_date
             @ localeDate rt (parseDate rt (render (date item) @ ascii ''T00:00:00'')) @ [10]
        else [])
     @ (if truthyS (startTime item)
        then plan_time @ localeDateTime rt (parseDate rt (render (startTime item))) @ [10]
        else [])
     @ (if truthyQ (duration_hours item)
        then plan_duration_a @ showNumber rt (the (duration_hours item)) @ plan_duration_b
        else [])
     @ [10]"

definition formatPlanForConfirmation :: "runtime \<Rightarrow> planEvent list \<Rightarrow> bool \<Rightarrow> jsstring" where
  "formatPlanForConfirmation rt plan showGreeting =
     (if showGreeting then plan_greeting else [])
     @ concat (map (\<lambda>(index, item). formatPlanItem rt index item) (enumerate 0 plan))
     @ plan_footer"

text \<open>\<open>plan.forEach\<close> and \<open>plan.every\<close> raise \<open>TypeError\<close> on a missing plan.\<close>

definition formatPlanOrRaise :: "runtime \<Rightarrow> planEvent list option \<Rightarrow> bool \<Rightarrow> jsstring io" where
  "formatPlanOrRaise rt plan showGreeting =
     (case plan of None \<Rightarrow> throw TypeError
      | Some p \<Rightarrow> ret (formatPlanForConfirmation rt p showGreeting))"

definition isPlanComplete :: "planEvent list \<Rightarrow> bool" where
  "isPlanComplete plan = list_all (\<lambda>event. truthyS (date event) \<or> truthyS (startTime event)) plan"

definition formatIncompletePlanAsTemplate :: "planEvent list \<Rightarrow> jsstring" where
  "formatIncompletePlanAsTemplate plan =
     tmpl_header
     @ concat (map (\<lambda>(index, event).
          tmpl_event_a @ showNat (index + 1) @ tmpl_event_b @ render (summary event) @ [10]
          @ tmpl_date
          @ (let dateValue = orElse (date event) (startTime event)
             in if truthyS dateValue then render dateValue else tmpl_placeholder)
          @ [10, 10])
        (enumerate 0 plan))
     @ tmpl_footer"

section \<open>Calendar handler: the conversation states it writes\<close>

definition noState :: userState where
  "noState = \<lparr> us_status = None, us_plan = None, us_events = None, us_partialPlan = None,
     us_noteId = None \<rparr>"

definition confirmationState :: "planEvent list option \<Rightarrow> userState" where
  "confirmationState plan =
     noState \<lparr> us_status := Some (ascii ''waiting_confirmation''), us_plan := plan \<rparr>"

definition deleteState :: "calEvent list \<Rightarrow> userState" where
  "deleteState foundEvents =
     noState \<lparr> us_status := Some (ascii ''waiting_delete_confirmation''),
               us_events := Some foundEvents \<rparr>"

definition correctionState :: "intent \<Rightarrow> userState" where
  "correctionState partial =
     noState \<lparr> us_status := Some (ascii ''waiting_plan_correction''),
               us_partialPlan := Some partial \<rparr>"

definition knowledgeState :: "nat \<Rightarrow> userState" where
  "knowledgeState newNoteId =
     noState \<lparr> us_status := Some (ascii ''waiting_knowledge_action''),
               us_noteId := Some newNoteId \<rparr>"

section \<open>Calendar handler: fresh requests\<close>

text \<open>\<open>handleListEvents\<close>: everything is inside a \<open>try\<close>.\<close>

definition handleListEvents :: "runtime \<Rightarrow> env \<Rightarrow> intent \<Rightarrow> jsstring io" where
  "handleListEvents rt env intent =
     catch
       (let timeRange = (case i_params intent of
                           None \<Rightarrow> ascii ''today''
                         | Some p \<Rightarrow> if truthyS (p_timeRange p) then render (p_timeRange p)
                                     else ascii ''today'')
        in bind (listEvents env timeRange) (\<lambda>events. lift (formatEventsForLine rt events)))
       (\<lambda>e. ret msg_list_failed)"

text \<open>
  \<open>handleCreateEvent\<close>: everything is inside a \<open>try\<close>. Without an \<open>endTime\<close> the end is
  one hour after the start (a sum of two integers, which doubles add without rounding),
  and \<open>toISOString\<close> raises when the start, and so the end, or the end alone is an
  invalid date.
\<close>

definition handleCreateEvent :: "runtime \<Rightarrow> env \<Rightarrow> intent \<Rightarrow> jsstring io" where
  "handleCreateEvent rt env intent =
     catch
       (case i_params intent of
          None \<Rightarrow> ret msg_need_summary_start
        | Some p \<Rightarrow>
            if \<not> truthyS (summary (p_event p)) \<or> \<not> truthyS (startTime (p_event p))
            then ret msg_need_summary_start
            else
              bind (if truthyS (p_endTime p) then ret (Verbatim (render (p_endTime p)))
                    else (case parseDate rt (render (startTime (p_event p))) of
                            None \<Rightarrow> throw RangeError
                          | Some t \<Rightarrow>
                              (case timeClip (Finite (of_int (t + 60 * 60 * 1000))) of
                                 None \<Rightarrow> throw RangeError
                               | Some e \<Rightarrow> ret (IsoOf e))))
                (\<lambda>endText.
                   bind (createEvent env
                           \<lparr> ed_summary = summary (p_event p),
                             ed_start = Verbatim (render (startTime (p_event p))),
                             ed_end = endText \<rparr>)
                     (\<lambda>createdEvent.
                        ret (msg_event_created_a @ ev_summary createdEvent @ msg_event_created_b
                             @ localeDateTimeTaipei rt
                                 (dateOf rt (dt_dateTime (ev_start createdEvent)))))))
       (\<lambda>e. ret msg_create_failed)"

text \<open>
  \<open>handleDeleteRequest\<close> has no \<open>try\<close> of its own. It writes the state
  \<open>waiting_delete_confirmation\<close> when the search finds something.
\<close>

definition formatCandidates :: "runtime \<Rightarrow> calEvent list \<Rightarrow> jsstring" where
  "formatCandidates rt foundEvents =
     (case foundEvents of
        [event] \<Rightarrow>
          msg_found_one_a @ ev_summary event @ msg_event_created_b
          @ localeDateTime rt (dateOf rt (dt_dateTime (ev_start event))) @ msg_found_one_b
      | _ \<Rightarrow>
          msg_found_many_a @ showNat (length foundEvents) @ msg_found_many_b
          @ concat (map (\<lambda>(index, event).
               showNat (index + 1) @ ascii ''. '' @ ev_summary event @ ascii '' (''
               @ localeDateTime rt
                   (dateOf rt (orElse (dt_dateTime (ev_start event)) (dt_date (ev_start event))))
               @ ascii '')'' @ [10])
             (enumerate 0 foundEvents))
          @ msg_found_many_c)"

definition handleDeleteRequest :: "runtime \<Rightarrow> env \<Rightarrow> nat \<Rightarrow> intent \<Rightarrow> jsstring io" where
  "handleDeleteRequest rt env row intent =
     (let query = (case i_params intent of None \<Rightarrow> None | Some p \<Rightarrow> p_query p) in
      if \<not> truthyS query then ret msg_need_query
      else
        bind (searchEvents env (render query))
          (\<lambda>foundEvents.
             if foundEvents = [] then ret (msg_not_found_a @ render query @ msg_not_found_b)
             else
               bind (setUserState env row (Some (deleteState foundEvents)))
                 (\<lambda>_. ret (formatCandidates rt foundEvents))))"

text \<open>\<open>plan.forEach(item => item.objectiveId = id)\<close>\<close>

definition withObjective :: "nat \<Rightarrow> planEvent list \<Rightarrow> planEvent list" where
  "withObjective oid plan = map (\<lambda>item. item \<lparr> objectiveId := Some oid \<rparr>) plan"

text \<open>
  The \<open>switch\<close> on the action of a fresh request. The result is the value that
  \<open>handleMessage\<close> returns: \<open>None\<close> is \<open>undefined\<close>, which \<open>clarify_or_reject\<close> returns
  when the parameters carry no response.
\<close>

definition dispatchIntent ::
  "runtime \<Rightarrow> env \<Rightarrow> userContext \<Rightarrow> intent \<Rightarrow> jsstring option io" where
  "dispatchIntent rt env userContext intent =
     (let row = rowNumber userContext; uid = user_id (uc_user userContext) in
      if i_action intent = Some (ascii ''plan_complex_task'') then
        bind
          (if truthyS (i_objectiveTitle intent) then
             bind (findObjectiveByTitle env uid (i_objectiveTitle intent))
               (\<lambda>found. case found of
                    Some objective \<Rightarrow>
                      (case i_plan intent of
                         None \<Rightarrow> throw TypeError
                       | Some p \<Rightarrow> ret (Inr (Some (withObjective (objective_id objective) p))))
                  | None \<Rightarrow>
                      ret (Inl (msg_objective_missing_a @ render (i_objectiveTitle intent)
                                @ msg_objective_missing_create)))
           else ret (Inr (i_plan intent)))
          (\<lambda>r. case r of
               Inl reply \<Rightarrow> ret (Some reply)
             | Inr plan \<Rightarrow>
                 bind (setUserState env row (Some (confirmationState plan)))
                   (\<lambda>_. bind (formatPlanOrRaise rt plan True) (\<lambda>s. ret (Some s))))
      else if i_action intent = Some (ascii ''list_events'') then
        bind (handleListEvents rt env intent) (\<lambda>s. ret (Some s))
      else if i_action intent = Some (ascii ''create_event'') then
        bind (handleCreateEvent rt env intent) (\<lambda>s. ret (Some s))
      else if i_action intent = Some (ascii ''clarify_or_reject'') then
        (case i_params intent of None \<Rightarrow> throw TypeError | Some p \<Rightarrow> ret (p_response p))
      else if i_action intent = Some (ascii ''delete_event'') then
        bind (handleDeleteRequest rt env row intent) (\<lambda>s. ret (Some s))
      else if i_action intent = Some (ascii ''create_learning_objective'') then
        (case i_params intent of
           None \<Rightarrow> throw TypeError
         | Some p \<Rightarrow>
             if \<not> truthyS (p_title p) then ret (Some msg_need_title)
             else
               bind (createLearningObjective env uid (render (p_title p))
                       (if truthyS (p_dueDate p) then p_dueDate p else None))
                 (\<lambda>newObjective.
                    ret (Some (msg_objective_created_a @ ob_title newObjective
                          @ (if truthyS (due_date newObjective)
                             then msg_objective_due @ render (due_date newObjective) else [])
                          @ msg_objective_created_b @ ob_title newObjective
                          @ msg_objective_created_c))))
      else if i_action intent = Some (ascii ''plan_for_objective'') then
        (case i_params intent of
           None \<Rightarrow> throw TypeError
         | Some p \<Rightarrow>
             bind (findObjectiveByTitle env uid (p_objectiveTitle p))
               (\<lambda>found. case found of
                    None \<Rightarrow>
                      ret (Some (msg_objective_missing_a @ render (p_objectiveTitle p)
                                 @ msg_objective_missing_create))
                  | Some objective \<Rightarrow>
                      bind (generatePlanForObjective env (ob_title objective))
                        (\<lambda>generated. case i_plan generated of
                             None \<Rightarrow> throw TypeError
                           | Some p \<Rightarrow>
                               (let plan = withObjective (objective_id objective) p in
                                bind (setUserState env row (Some (confirmationState (Some plan))))
                                  (\<lambda>_. ret (Some (formatPlanForConfirmation rt plan True)))))))
      else if i_action intent = Some (ascii ''plan_generic_task'') then
        bind (setUserState env row (Some (confirmationState (i_plan intent))))
          (\<lambda>_. bind (formatPlanOrRaise rt (i_plan intent) True) (\<lambda>s. ret (Some s)))
      else ret (Some msg_not_understood))"

text \<open>
  The second half of \<open>handleMessage\<close>: the planner and the \<open>switch\<close>, inside the
  \<open>try\<close> whose \<open>catch\<close> answers with the generic failure reply.
\<close>

definition freshRequest ::
  "runtime \<Rightarrow> env \<Rightarrow> userContext \<Rightarrow> jsstring \<Rightarrow> jsstring option io" where
  "freshRequest rt env userContext message =
     catch
       (bind (understandAndPlan env message) (\<lambda>intent. dispatchIntent rt env userContext intent))
       (\<lambda>e. ret (Some msg_generic_failure))"

section \<open>Calendar handler: replies in a waiting state\<close>

text \<open>
  \<open>waiting_confirmation\<close>. The confirmation is an exact match of the trimmed message
  with one of the terms; the refusal is a search for a term in the trimmed message in
  lower case.
\<close>

definition isPureConfirmation :: "jsstring \<Rightarrow> bool" where
  "isPureConfirmation messageTrimmed \<longleftrightarrow>
     messageTrimmed \<in> set pureConfirmTerms \<and> length messageTrimmed < 5"

definition isNegative :: "runtime \<Rightarrow> jsstring \<Rightarrow> bool" where
  "isNegative rt messageTrimmed \<longleftrightarrow>
     list_ex (\<lambda>resp. includesStr (toLowerCase rt messageTrimmed) resp) negativeResponses"

definition waitingConfirmation ::
  "runtime \<Rightarrow> env \<Rightarrow> nat \<Rightarrow> userState \<Rightarrow> jsstring \<Rightarrow> jsstring io" where
  "waitingConfirmation rt env row userState message =
     (let plan = us_plan userState; messageTrimmed = trim message in
      if isPureConfirmation messageTrimmed then
        bind (setUserState env row None)
          (\<lambda>_. case plan of None \<Rightarrow> throw TypeError | Some p \<Rightarrow> handleCreatePlan rt env p)
      else if isNegative rt messageTrimmed then
        bind (setUserState env row None) (\<lambda>_. ret msg_cancelled)
      else
        bind (modifyPlan env plan message)
          (\<lambda>modifiedIntent.
             if i_action modifiedIntent = Some (ascii ''plan_complex_task'') then
               bind (setUserState env row (Some (confirmationState (i_plan modifiedIntent))))
                 (\<lambda>_. bind (formatPlanOrRaise rt (i_plan modifiedIntent) False)
                         (\<lambda>s. ret (msg_adjusted_prefix @ s)))
             else
               bind (setUserState env row None)
                 (\<lambda>_. ret (case i_params modifiedIntent of
                              None \<Rightarrow> msg_modify_unclear
                            | Some p \<Rightarrow> if truthyS (p_response p) then render (p_response p)
                                        else msg_modify_unclear))))"

text \<open>
  \<open>waiting_delete_confirmation\<close>. The two loops delete one event after the other and
  collect the summaries of the deleted events; the counter of the source is the length
  of that list. An exception of \<open>deleteEventById\<close> ends the loop and the handler.
\<close>

fun deleteAll :: "env \<Rightarrow> calEvent list \<Rightarrow> jsstring list io" where
  "deleteAll env [] = ret []"
| "deleteAll env (event # rest) =
     bind (deleteEventById env (ev_id event))
       (\<lambda>_. bind (deleteAll env rest) (\<lambda>deleted. ret (ev_summary event # deleted)))"

text \<open>\<open>eventsToDelete[index]\<close> is \<open>undefined\<close> outside the array.\<close>

definition elementAt :: "'a list \<Rightarrow> int \<Rightarrow> 'a option" where
  "elementAt xs i = (if 0 \<le> i \<and> i < int (length xs) then Some (xs ! nat i) else None)"

fun deleteSelected :: "env \<Rightarrow> calEvent list \<Rightarrow> int list \<Rightarrow> jsstring list io" where
  "deleteSelected env eventsToDelete [] = ret []"
| "deleteSelected env eventsToDelete (index # rest) =
     (case elementAt eventsToDelete index of
        None \<Rightarrow> deleteSelected env eventsToDelete rest
      | Some event \<Rightarrow>
          bind (deleteEventById env (ev_id event))
            (\<lambda>_. bind (deleteSelected env eventsToDelete rest)
                    (\<lambda>deleted. ret (ev_summary event # deleted))))"

definition waitingDeleteConfirmation ::
  "env \<Rightarrow> nat \<Rightarrow> userState \<Rightarrow> jsstring \<Rightarrow> jsstring io" where
  "waitingDeleteConfirmation env row userState message =
     (case us_events userState of
        None \<Rightarrow> throw TypeError
      | Some eventsToDelete \<Rightarrow>
          bind (parseDeletionChoice env message (length eventsToDelete))
            (\<lambda>choiceResult.
               bind (case choiceResult of
                       SelAll \<Rightarrow> deleteAll env eventsToDelete
                     | SelIndices indices \<Rightarrow> deleteSelected env eventsToDelete indices
                     | SelNone \<Rightarrow> ret [])
                 (\<lambda>deletedSummaries.
                    bind (setUserState env row None)
                      (\<lambda>_. ret (if length deletedSummaries > 0
                                 then msg_deleted_a @ showNat (length deletedSummaries)
                                      @ msg_deleted_b @ join sep_dash deletedSummaries
                                 else msg_delete_cancelled)))))"

definition waitingPlanCorrection ::
  "runtime \<Rightarrow> env \<Rightarrow> nat \<Rightarrow> userState \<Rightarrow> jsstring \<Rightarrow> jsstring io" where
  "waitingPlanCorrection rt env row userState message =
     bind (mergePlanWithCorrection env (us_partialPlan userState) message)
       (\<lambda>completeIntent.
          if truthyS (i_error completeIntent) then
            bind (setUserState env row None) (\<lambda>_. ret msg_merge_failed)
          else
            bind (setUserState env row (Some (confirmationState (i_plan completeIntent))))
              (\<lambda>_. bind (formatPlanOrRaise rt (i_plan completeIntent) False)
                      (\<lambda>s. ret (msg_merged_prefix @ s))))"

definition waitingKnowledgeAction ::
  "env \<Rightarrow> userContext \<Rightarrow> userState \<Rightarrow> jsstring \<Rightarrow> jsstring io" where
  "waitingKnowledgeAction env userContext userState message =
     (let row = rowNumber userContext; uid = user_id (uc_user userContext) in
      if \<not> truthyN (us_noteId userState) then
        bind (setUserState env row None) (\<lambda>_. ret msg_note_forgotten)
      else
        (let nid = the (us_noteId userState) in
         bind (understandAndPlan env message)
           (\<lambda>intent.
              (let objectiveTitle =
                     (case i_params intent of None \<Rightarrow> None | Some p \<Rightarrow> p_objectiveTitle p)
               in
               if i_action intent = Some (ascii ''link_note_to_objective'')
                  \<and> truthyS objectiveTitle
               then
                 bind (findObjectiveByTitle env uid objectiveTitle)
                   (\<lambda>found. case found of
                        None \<Rightarrow>
                          ret (msg_objective_missing_a @ render objectiveTitle
                               @ msg_objective_missing_check)
                      | Some objective \<Rightarrow>
                          bind (linkNoteToObjective env nid (objective_id objective))
                            (\<lambda>_. bind (setUserState env row None)
                                    (\<lambda>_. ret (msg_archived_a @ ob_title objective
                                               @ msg_archived_b))))
               else
                 bind (getKnowledgeNoteById env nid)
                   (\<lambda>knowledgeData. case knowledgeData of
                        None \<Rightarrow>
                          bind (setUserState env row None) (\<lambda>_. ret msg_note_read_failed)
                      | Some k \<Rightarrow>
                          bind (processKnowledge env k message)
                            (\<lambda>finalResult.
                               bind (setUserState env row None) (\<lambda>_. ret finalResult)))))))"

section \<open>Calendar handler: the entry point for text messages\<close>

text \<open>
  \<open>handleMessage\<close>. The state is parsed outside every \<open>try\<close>. A state with a known
  status is answered by its case, which returns; the default case clears the state and
  leaves the \<open>switch\<close>, so that the message goes on as a fresh request; so does a message
  without a state.
\<close>

definition handleMessage ::
  "runtime \<Rightarrow> env \<Rightarrow> userContext \<Rightarrow> jsstring \<Rightarrow> jsstring option io" where
  "handleMessage rt env userContext message =
     (let row = rowNumber userContext in
      case state_json (uc_user userContext) of
        Malformed \<Rightarrow> throw SyntaxError
      | Absent \<Rightarrow> freshRequest rt env userContext message
      | Falsy \<Rightarrow> freshRequest rt env userContext message
      | Stored userState \<Rightarrow>
          if us_status userState = Some (ascii ''waiting_confirmation'') then
            bind (waitingConfirmation rt env row userState message) (\<lambda>s. ret (Some s))
          else if us_status userState = Some (ascii ''waiting_delete_confirmation'') then
            bind (waitingDeleteConfirmation env row userState message) (\<lambda>s. ret (Some s))
          else if us_status userState = Some (ascii ''waiting_plan_correction'') then
            bind (waitingPlanCorrection rt env row userState message) (\<lambda>s. ret (Some s))
          else if us_status userState = Some (ascii ''waiting_knowledge_action'') then
            bind (waitingKnowledgeAction env userContext userState message) (\<lambda>s. ret (Some s))
          else
            bind (setUserState env row None) (\<lambda>_. freshRequest rt env userContext message))"

section \<open>Calendar handler: images\<close>

text \<open>
  The post-processing of a plan read from an image: keep the steps with a summary and a
  date or start time, then keep of the steps with equal summary and date the first.
\<close>

fun findIndex :: "('a \<Rightarrow> bool) \<Rightarrow> 'a list \<Rightarrow> int" where
  "findIndex P [] = - 1"
| "findIndex P (x # xs) =
     (if P x then 0 else (let i = findIndex P xs in if i < 0 then - 1 else i + 1))"

definition completeEvents :: "planEvent list \<Rightarrow> planEvent list" where
  "completeEvents plan =
     filter (\<lambda>event. truthyS (summary event)
                     \<and> (truthyS (date event) \<or> truthyS (startTime event))) plan"

definition uniqueEvents :: "planEvent list \<Rightarrow> planEvent list" where
  "uniqueEvents self =
     map snd (filter (\<lambda>(index, event).
         int index = findIndex (\<lambda>t. summary t = summary event \<and> date t = date event) self)
       (enumerate 0 self))"

definition postProcess :: "intent \<Rightarrow> intent" where
  "postProcess intent =
     (case i_plan intent of
        Some p \<Rightarrow> if i_action intent = Some (ascii ''plan_complex_task'')
                  then intent \<lparr> i_plan := Some (uniqueEvents (completeEvents p)) \<rparr>
                  else intent
      | None \<Rightarrow> intent)"

text \<open>
  \<open>preparePushMessageFromIntent\<close>. In the case \<open>create_event\<close> the plan is
  \<open>[intent.params]\<close>; missing parameters are no step, and rendering them raises
  \<open>TypeError\<close>.
\<close>

definition preparePushMessageFromIntent ::
  "runtime \<Rightarrow> env \<Rightarrow> userContext \<Rightarrow> intent \<Rightarrow> jsstring io" where
  "preparePushMessageFromIntent rt env userContext intent0 =
     (let row = rowNumber userContext; uid = user_id (uc_user userContext);
          intent = postProcess intent0 in
      if i_action intent = Some (ascii ''reconstruct_knowledge'') then
        bind (saveKnowledgeNote env uid intent)
          (\<lambda>newNoteId.
             bind (setUserState env row (Some (knowledgeState newNoteId)))
               (\<lambda>_. ret (msg_note_ready_a
                          @ (if truthyS (i_source intent) then render (i_source intent)
                             else default_note_title)
                          @ msg_note_ready_b)))
      else if i_action intent = Some (ascii ''plan_complex_task'') then
        (case i_plan intent of
           None \<Rightarrow> throw TypeError
         | Some plan \<Rightarrow>
             if isPlanComplete plan then
               bind (setUserState env row (Some (confirmationState (Some plan))))
                 (\<lambda>_. ret (formatPlanForConfirmation rt plan True))
             else if plan = [] then ret msg_no_complete_activity
             else
               bind (setUserState env row (Some (correctionState intent)))
                 (\<lambda>_. ret (formatIncompletePlanAsTemplate plan)))
      else if i_action intent = Some (ascii ''create_event'') then
        (case i_params intent of
           Some p \<Rightarrow>
             if truthyS (startTime (p_event p)) then
               bind (setUserState env row (Some (confirmationState (Some [p_event p]))))
                 (\<lambda>_. ret (formatPlanForConfirmation rt [p_event p] True))
             else
               bind (setUserState env row (Some (correctionState (planIntent [p_event p]))))
                 (\<lambda>_. ret (formatIncompletePlanAsTemplate [p_event p]))
         | None \<Rightarrow>
             bind (setUserState env row (Some (correctionState (planIntent []))))
               (\<lambda>_. throw TypeError))
      else ret msg_image_not_understood)"

text \<open>
  \<open>processImageInBackground\<close>. \<open>hasLineHandler\<close> says whether \<open>setLineHandler\<close> was
  called. The push of the result is inside the \<open>try\<close>, the push of the apology is not.
\<close>

definition processImageInBackground ::
  "runtime \<Rightarrow> env \<Rightarrow> bool \<Rightarrow> userContext \<Rightarrow> image \<Rightarrow> unit io" where
  "processImageInBackground rt env hasLineHandler userContext imageBuffer =
     (let uid = line_user_id (uc_user userContext) in
      catch
        (bind (analyzeImageAndPlan env imageBuffer)
           (\<lambda>intent.
              bind (preparePushMessageFromIntent rt env userContext intent)
                (\<lambda>pushMessageText.
                   if hasLineHandler \<and> pushMessageText \<noteq> []
                   then pushMessage env uid pushMessageText
                   else ret ())))
        (\<lambda>e. if hasLineHandler then pushMessage env uid msg_image_apology else ret ()))"

section \<open>Observations on a trace\<close>

text \<open>The calendar insertions of a trace, in order, each with its outcome.\<close>

fun inserts :: "trace \<Rightarrow> (eventData \<times> bool) list" where
  "inserts [] = []"
| "inserts ((CalendarInsert ed, ok) # tr) = (ed, ok) # inserts tr"
| "inserts (c # tr) = inserts tr"

text \<open>A step that carries neither \<open>date\<close> nor \<open>startTime\<close>.\<close>

definition undated :: "planEvent \<Rightarrow> bool" where
  "undated item \<longleftrightarrow> \<not> truthyS (date item) \<and> \<not> truthyS (startTime item)"

text \<open>The starts that the loop computes for the steps of a plan, from a cursor.\<close>

fun planStarts :: "runtime \<Rightarrow> int \<Rightarrow> planEvent list \<Rightarrow> int option list" where
  "planStarts rt c [] = []"
| "planStarts rt c (item # rest) =
     (case scheduleStep rt c item of (s, c') \<Rightarrow> s # planStarts rt c' rest)"

text \<open>
  The dates of a plan are valid from a cursor: every step has a valid start and, from
  that start, a valid end, so that no \<open>toISOString\<close> of the loop raises.
\<close>

definition datesValid :: "runtime \<Rightarrow> int \<Rightarrow> planEvent list \<Rightarrow> bool" where
  "datesValid rt c plan =
     list_all (\<lambda>(item, s). case s of None \<Rightarrow> False
                 | Some eventStart \<Rightarrow> eventEndOf rt item eventStart \<noteq> None)
       (zip plan (planStarts rt c plan))"


text \<open>
  The date key under which the formatter files an event: \<open>None\<close> for an event without
  a start, \<open>Some None\<close> for one whose start is no valid date.
\<close>

definition keyOf :: "runtime \<Rightarrow> calEvent \<Rightarrow> jsstring option option" where
  "keyOf rt event =
     (let startDateTime = orElse (dt_dateTime (ev_start event)) (dt_date (ev_start event)) in
      if \<not> truthyS startDateTime then None
      else Some (map_option (isoDate rt) (parseDate rt (render startDateTime))))"

text \<open>A list with an event whose start is no valid date, and the events filed under a key.\<close>

definition invalidIn :: "runtime \<Rightarrow> calEvent list \<Rightarrow> bool" where
  "invalidIn rt xs \<longleftrightarrow> (\<exists>e\<in>set xs. keyOf rt e = Some None)"

definition onDate :: "runtime \<Rightarrow> jsstring \<Rightarrow> calEvent list \<Rightarrow> calEvent list" where
  "onDate rt k xs = filter (\<lambda>e. keyOf rt e = Some (Some k)) xs"

text \<open>Kinds of calls, and the number of calls of a kind in a trace.\<close>

fun isStateWrite :: "call \<Rightarrow> bool" where
  "isStateWrite (SetUserState row st) = True"
| "isStateWrite c = False"

fun isPush :: "call \<Rightarrow> bool" where
  "isPush (LinePush uid t) = True"
| "isPush c = False"

fun isOracleCall :: "call \<Rightarrow> bool" where
  "isOracleCall (LlmUnderstand m) = True"
| "isOracleCall (LlmModifyPlan p m) = True"
| "isOracleCall (LlmDeletionChoice m n) = True"
| "isOracleCall (LlmMerge p m) = True"
| "isOracleCall (LlmKnowledge k g) = True"
| "isOracleCall (LlmObjectivePlan t) = True"
| "isOracleCall (LlmImage i) = True"
| "isOracleCall c = False"

fun isEventStoreCall :: "call \<Rightarrow> bool" where
  "isEventStoreCall (CalendarList r) = True"
| "isEventStoreCall (CalendarInsert e) = True"
| "isEventStoreCall (CalendarSearch q) = True"
| "isEventStoreCall (CalendarDelete i) = True"
| "isEventStoreCall c = False"

definition calls :: "(call \<Rightarrow> bool) \<Rightarrow> trace \<Rightarrow> nat" where
  "calls P d = length (filter (P \<circ> fst) d)"

text \<open>
  A computation that adds between \<open>lo\<close> and \<open>hi\<close> calls of a kind to the trace: never
  more than \<open>hi\<close>, and at least \<open>lo\<close> when it returns.
\<close>

definition adds :: "(call \<Rightarrow> bool) \<Rightarrow> 'a io \<Rightarrow> nat \<Rightarrow> nat \<Rightarrow> bool" where
  "adds P m lo hi \<longleftrightarrow>
     (\<forall>tr. \<exists>d. snd (m tr) = tr @ d \<and> calls P d \<le> hi
                \<and> (isl (fst (m tr)) \<or> lo \<le> calls P d))"

text \<open>The pushes of a trace, in order: receiver, text and outcome.\<close>

fun pushed :: "trace \<Rightarrow> (jsstring \<times> jsstring \<times> bool) list" where
  "pushed [] = []"
| "pushed ((LinePush uid t, ok) # tr) = (uid, t, ok) # pushed tr"
| "pushed (c # tr) = pushed tr"

text \<open>The candidates that a selection names, in the order of the selection.\<close>

fun selected :: "calEvent list \<Rightarrow> selection \<Rightarrow> calEvent list" where
  "selected candidates SelAll = candidates"
| "selected candidates SelNone = []"
| "selected candidates (SelIndices indices) = List.map_filter (elementAt candidates) indices"

text \<open>The four states that \<open>handleMessage\<close> knows.\<close>

definition knownStatus :: "jsstring option \<Rightarrow> bool" where
  "knownStatus s \<longleftrightarrow>
     s = Some (ascii ''waiting_confirmation'') \<or> s = Some (ascii ''waiting_delete_confirmation'')
     \<or> s = Some (ascii ''waiting_plan_correction'') \<or> s = Some (ascii ''waiting_knowledge_action'')"

text \<open>A computation all of whose results have a property.\<close>

definition yields :: "('a \<Rightarrow> bool) \<Rightarrow> 'a io \<Rightarrow> bool" where
  "yields Q m \<longleftrightarrow> (\<forall>tr x tr'. m tr = (Inr x, tr') \<longrightarrow> Q x)"

section \<open>Example inputs\<close>

text \<open>
  A runtime whose clock stands at the epoch, a Thursday, in a time zone without offset; it
  knows the texts of two dates, 10 and 12 January 1970, and its doubles are exact, as
  they are on the integers of the examples. The environment
  \<open>env_ok\<close> answers every call without failing; its language model gives an intent
  without action, returns a plan to modify as it is, and selects nothing to delete.
\<close>

definition step :: "string \<Rightarrow> planEvent" where
  "step s = \<lparr> summary = Some (ascii s), date = None, startTime = None,
              duration_hours = None, objectiveId = None \<rparr>"

definition rt0 :: runtime where
  "rt0 = \<lparr> now = 0, tzOffset = 0,
       parseDate = map_of
         [(ascii ''1970-01-10'', 777600000), (ascii ''1970-01-10T00:00:00'', 777600000),
          (ascii ''1970-01-10T09:00:00'', 810000000),
          (ascii ''1970-01-12'', 950400000), (ascii ''1970-01-12T00:00:00'', 950400000)],
       toLowerCase = map (\<lambda>c. if 65 \<le> c \<and> c \<le> 90 then c + 32 else c),
       isoDate = (\<lambda>t. if t div msPerDay = 9 then ascii ''1970-01-10''
                     else if t div msPerDay = 11 then ascii ''1970-01-12''
                     else ascii ''1970-01-01''),
       localeDate = (\<lambda>t. case t of None \<Rightarrow> ascii ''Invalid Date''
                     | Some t \<Rightarrow> ascii ''day '' @ showNat (nat (t div msPerDay))),
       localeLongDate = (\<lambda>t. case t of None \<Rightarrow> ascii ''Invalid Date''
                     | Some t \<Rightarrow> ascii ''day '' @ showNat (nat (t div msPerDay))),
       localeDateTime = (\<lambda>t. case t of None \<Rightarrow> ascii ''Invalid Date''
                     | Some t \<Rightarrow> showNat (nat t)),
       localeDateTimeTaipei = (\<lambda>t. case t of None \<Rightarrow> ascii ''Invalid Date''
                     | Some t \<Rightarrow> showNat (nat t)),
       localeTime = (\<lambda>t. case t of None \<Rightarrow> ascii ''Invalid Date''
                     | Some t \<Rightarrow> showNat (nat (t mod msPerDay))),
       showNumber = (\<lambda>v. case v of NotFinite \<Rightarrow> ascii ''Infinity''
                     | Finite q \<Rightarrow> showNat (nat \<lfloor>q\<rfloor>)),
       doubleTimes = (\<lambda>a b. Finite (a * b)),
       doublePlus = (\<lambda>a b. Finite (a + b)) \<rparr>"

definition event0 :: calEvent where
  "event0 = \<lparr> ev_id = ascii ''e0'', ev_summary = ascii ''A'',
       ev_start = \<lparr> dt_date = None, dt_dateTime = None \<rparr>,
       ev_end = \<lparr> dt_date = None, dt_dateTime = None \<rparr> \<rparr>"

definition intent0 :: intent where
  "intent0 = \<lparr> i_action = None, i_plan = None, i_objectiveTitle = None, i_params = None,
       i_error = None, i_source = None \<rparr>"

definition env_ok :: env where
  "env_ok = \<lparr>
     sheet_setUserState = (\<lambda>tr row st. Inr ()),
     sheet_findObjectiveByTitle = (\<lambda>tr uid t. Inr None),
     sheet_linkNoteToObjective = (\<lambda>tr nid oid. Inr ()),
     sheet_getKnowledgeNoteById = (\<lambda>tr nid. Inr None),
     sheet_createLearningObjective =
       (\<lambda>tr uid t due. Inr \<lparr> objective_id = 1, ob_title = t, due_date = due \<rparr>),
     sheet_linkEventToObjective = (\<lambda>tr oid eid. Inr ()),
     sheet_saveKnowledgeNote = (\<lambda>tr uid i. Inr 1),
     llm_understand = (\<lambda>tr msg. Inr intent0),
     llm_modify = (\<lambda>tr p msg. Inr (Inl (case p of None \<Rightarrow> [] | Some x \<Rightarrow> x))),
     llm_choice = (\<lambda>tr msg n. Inr SelNone),
     llm_merge = (\<lambda>tr p msg. Inr intent0),
     llm_knowledge = (\<lambda>tr k goal. Inr (ascii ''summary'')),
     llm_objectivePlan = (\<lambda>tr t. Inr intent0),
     llm_image = (\<lambda>tr img. Inr intent0),
     calendar_list = (\<lambda>tr range. Inr []),
     calendar_insert = (\<lambda>tr ed. Inr event0),
     calendar_search = (\<lambda>tr q. Inr []),
     calendar_delete = (\<lambda>tr eid. Inr ()),
     line_push = (\<lambda>tr uid text. Inr ()) \<rparr>"

definition env_reject_second :: env where
  "env_reject_second =
     env_ok \<lparr> calendar_insert :=
       (\<lambda>tr ed. if length (inserts tr) = 1 then Inl ServiceError else Inr event0) \<rparr>"


text \<open>The event data of a step of one hour.\<close>

definition hourFrom :: "string \<Rightarrow> int \<Rightarrow> eventData" where
  "hourFrom s t = \<lparr> ed_summary = Some (ascii s), ed_start = IsoOf t,
       ed_end = IsoOf (t + 3600000) \<rparr>"

definition plan_abc :: "planEvent list" where
  "plan_abc = [step ''A'', step ''B'', step ''C'']"

text \<open>The same plan with a second step of ten million million hours.\<close>

definition plan_long :: "planEvent list" where
  "plan_long = [step ''A'', (step ''B'') \<lparr> duration_hours := Some (Finite 10000000000000) \<rparr>,
     step ''C'']"


text \<open>All-day events: two on 10 January 1970 and one on 12 January 1970.\<close>

definition allDay :: "string \<Rightarrow> string \<Rightarrow> calEvent" where
  "allDay s d = \<lparr> ev_id = ascii s, ev_summary = ascii s,
       ev_start = \<lparr> dt_date = Some (ascii d), dt_dateTime = None \<rparr>,
       ev_end = \<lparr> dt_date = Some (ascii d), dt_dateTime = None \<rparr> \<rparr>"

definition eventA :: calEvent where
  "eventA = allDay ''A'' ''1970-01-10''"

definition eventB :: calEvent where
  "eventB = allDay ''B'' ''1970-01-10''"

definition eventC :: calEvent where
  "eventC = allDay ''C'' ''1970-01-12''"

text \<open>Users in the states of the conversation, in row 7 of the sheet.\<close>

definition userIn :: "stateJson \<Rightarrow> userContext" where
  "userIn s = \<lparr> rowNumber = 7,
       uc_user = \<lparr> user_id = 1, line_user_id = ascii ''U1'', state_json = s \<rparr> \<rparr>"

definition env_store_down :: env where
  "env_store_down = env_ok \<lparr> sheet_setUserState := (\<lambda>tr row st. Inl ServiceError) \<rparr>"

definition env_delete_fails :: env where
  "env_delete_fails =
     env_ok \<lparr> llm_choice := (\<lambda>tr msg n. Inr SelAll),
              calendar_delete := (\<lambda>tr eid. Inl ServiceError) \<rparr>"

definition env_push_down :: env where
  "env_push_down = env_ok \<lparr> line_push := (\<lambda>tr uid text. Inl ServiceError) \<rparr>"

definition env_clarify_empty :: env where
  "env_clarify_empty = env_ok \<lparr> llm_understand := (\<lambda>tr msg. Inr (clarifyIntent [])) \<rparr>"



definition env_pick_1_3 :: env where
  "env_pick_1_3 = env_ok \<lparr> llm_choice := (\<lambda>tr msg n. Inr (SelIndices [0, 2])) \<rparr>"

definition env_plan_store_down :: env where
  "env_plan_store_down =
     env_store_down \<lparr> llm_understand := (\<lambda>tr msg. Inr (emptyIntent
        \<lparr> i_action := Some (ascii ''plan_generic_task''), i_plan := Some plan_abc \<rparr>)) \<rparr>"

definition bogusState :: userState where
  "bogusState = noState \<lparr> us_status := Some (ascii ''bogus'') \<rparr>"

definition env_bogus_lookup :: env where
  "env_bogus_lookup = env_ok \<lparr> llm_understand := (\<lambda>tr msg. Inr (emptyIntent
      \<lparr> i_action := Some (ascii ''link_note_to_objective''),
        i_params := Some (emptyParams \<lparr> p_objectiveTitle := Some (ascii ''X'') \<rparr>) \<rparr>)) \<rparr>"

section \<open>Properties\<close>

subsection \<open>Strings\<close>

lemma ascii_eq_iff [simp]: "ascii s = ascii t \<longleftrightarrow> s = t"
  by (simp add: ascii_def inj_map_eq_map inj_on_def)

lemma ascii_Nil_iff [simp]: "ascii s = [] \<longleftrightarrow> s = []"
  by (simp add: ascii_def)

lemma Nil_ascii_iff [simp]: "[] = ascii s \<longleftrightarrow> s = []"
  by (auto simp add: ascii_def)

lemma length_ascii [simp]: "length (ascii s) = length s"
  by (simp add: ascii_def)

subsection \<open>The example runtime\<close>

lemma rt0_simps:
  "now rt0 = 0" "tzOffset rt0 = 0"
  "parseDate rt0 = map_of
         [(ascii ''1970-01-10'', 777600000), (ascii ''1970-01-10T00:00:00'', 777600000),
          (ascii ''1970-01-10T09:00:00'', 810000000),
          (ascii ''1970-01-12'', 950400000), (ascii ''1970-01-12T00:00:00'', 950400000)]"
  "isoDate rt0 t = (if t div msPerDay = 9 then ascii ''1970-01-10''
                     else if t div msPerDay = 11 then ascii ''1970-01-12''
                     else ascii ''1970-01-01'')"
  "toLowerCase rt0 = map (\<lambda>c. if 65 \<le> c \<and> c \<le> 90 then c + 32 else c)"
  "doubleTimes rt0 a b = Finite (a * b)"
  "doublePlus rt0 a b = Finite (a + b)"
  by (simp_all add: rt0_def)

subsection \<open>The literals are not empty\<close>

lemma literals_nonempty [simp]:
  "msg_cancelled \<noteq> []"
  "msg_adjusted_prefix \<noteq> []"
  "msg_modify_unclear \<noteq> []"
  "msg_deleted_a \<noteq> []"
  "msg_deleted_b \<noteq> []"
  "sep_dash \<noteq> []"
  "msg_delete_cancelled \<noteq> []"
  "msg_merge_failed \<noteq> []"
  "msg_merged_prefix \<noteq> []"
  "msg_note_forgotten \<noteq> []"
  "msg_objective_missing_a \<noteq> []"
  "msg_objective_missing_check \<noteq> []"
  "msg_objective_missing_create \<noteq> []"
  "msg_archived_a \<noteq> []"
  "msg_archived_b \<noteq> []"
  "msg_note_read_failed \<noteq> []"
  "msg_need_title \<noteq> []"
  "msg_objective_created_a \<noteq> []"
  "msg_objective_due \<noteq> []"
  "msg_objective_created_b \<noteq> []"
  "msg_objective_created_c \<noteq> []"
  "msg_not_understood \<noteq> []"
  "msg_generic_failure \<noteq> []"
  "plan_greeting \<noteq> []"
  "plan_stage_a \<noteq> []"
  "plan_stage_b \<noteq> []"
  "plan_date \<noteq> []"
  "plan_time \<noteq> []"
  "plan_duration_a \<noteq> []"
  "plan_duration_b \<noteq> []"
  "plan_footer \<noteq> []"
  "msg_created_a \<noteq> []"
  "msg_created_b \<noteq> []"
  "msg_none_created \<noteq> []"
  "msg_list_failed \<noteq> []"
  "msg_need_summary_start \<noteq> []"
  "msg_event_created_a \<noteq> []"
  "msg_event_created_b \<noteq> []"
  "msg_create_failed \<noteq> []"
  "msg_need_query \<noteq> []"
  "msg_not_found_a \<noteq> []"
  "msg_not_found_b \<noteq> []"
  "msg_found_one_a \<noteq> []"
  "msg_found_one_b \<noteq> []"
  "msg_found_many_a \<noteq> []"
  "msg_found_many_b \<noteq> []"
  "msg_found_many_c \<noteq> []"
  "msg_image_ack \<noteq> []"
  "msg_image_apology \<noteq> []"
  "msg_note_ready_a \<noteq> []"
  "msg_note_ready_b \<noteq> []"
  "default_note_title \<noteq> []"
  "msg_no_complete_activity \<noteq> []"
  "msg_image_not_understood \<noteq> []"
  "tmpl_header \<noteq> []"
  "tmpl_event_a \<noteq> []"
  "tmpl_event_b \<noteq> []"
  "tmpl_date \<noteq> []"
  "tmpl_placeholder \<noteq> []"
  "tmpl_footer \<noteq> []"
  "fmt_nothing \<noteq> []"
  "fmt_single_a \<noteq> []"
  "fmt_single_b \<noteq> []"
  "fmt_single_c \<noteq> []"
  "fmt_multi_a \<noteq> []"
  "fmt_multi_b \<noteq> []"
  "fmt_clock \<noteq> []"
  "fmt_all_day \<noteq> []"
  "llm_understand_fallback \<noteq> []"
  "llm_modify_fallback \<noteq> []"
  "llm_image_fallback \<noteq> []"
  "llm_knowledge_fallback \<noteq> []"
  "llm_merge_error \<noteq> []"
  by (simp_all add:
      msg_cancelled_def msg_adjusted_prefix_def msg_modify_unclear_def msg_deleted_a_def
      msg_deleted_b_def sep_dash_def msg_delete_cancelled_def msg_merge_failed_def
      msg_merged_prefix_def msg_note_forgotten_def msg_objective_missing_a_def
      msg_objective_missing_check_def msg_objective_missing_create_def msg_archived_a_def
      msg_archived_b_def msg_note_read_failed_def msg_need_title_def
      msg_objective_created_a_def msg_objective_due_def msg_objective_created_b_def
      msg_objective_created_c_def msg_not_understood_def msg_generic_failure_def
      plan_greeting_def plan_stage_a_def plan_stage_b_def plan_date_def plan_time_def
      plan_duration_a_def plan_duration_b_def plan_footer_def msg_created_a_def
      msg_created_b_def msg_none_created_def msg_list_failed_def msg_need_summary_start_def
      msg_event_created_a_def msg_event_created_b_def msg_create_failed_def
      msg_need_query_def msg_not_found_a_def msg_not_found_b_def msg_found_one_a_def
      msg_found_one_b_def msg_found_many_a_def msg_found_many_b_def msg_found_many_c_def
      msg_image_ack_def msg_image_apology_def msg_note_ready_a_def msg_note_ready_b_def
      default_note_title_def msg_no_complete_activity_def msg_image_not_understood_def
      tmpl_header_def tmpl_event_a_def tmpl_event_b_def tmpl_date_def tmpl_placeholder_def
      tmpl_footer_def fmt_nothing_def fmt_single_a_def fmt_single_b_def fmt_single_c_def
      fmt_multi_a_def fmt_multi_b_def fmt_clock_def fmt_all_day_def
      llm_understand_fallback_def llm_modify_fallback_def llm_image_fallback_def
      llm_knowledge_fallback_def llm_merge_error_def)

subsection \<open>Computations and the calls they add\<close>

lemma calls_append [simp]: "calls P (d @ d') = calls P d + calls P d'"
  by (simp add: calls_def)

lemma calls_Nil [simp]: "calls P [] = 0"
  by (simp add: calls_def)

lemma calls_Cons [simp]: "calls P ((c, ok) # d) = (if P c then 1 else 0) + calls P d"
  by (simp add: calls_def)

lemma adds_ret [intro!, simp]: "adds P (ret x) 0 0"
  by (simp add: adds_def ret_def)

lemma adds_throw [intro!, simp]: "adds P (throw e) lo 0"
  by (simp add: adds_def throw_def)

lemma adds_lift [intro!, simp]: "adds P (lift r) 0 0"
  by (simp add: adds_def lift_def)

lemma adds_extern_other: "\<not> P c \<Longrightarrow> adds P (extern c f) 0 0"
  by (auto simp: adds_def extern_def split: sum.splits)

lemma adds_extern_one: "P c \<Longrightarrow> adds P (extern c f) (Suc 0) (Suc 0)"
  by (auto simp: adds_def extern_def split: sum.splits)

lemma adds_weaken: "adds P m lo hi \<Longrightarrow> lo' \<le> lo \<Longrightarrow> hi \<le> hi' \<Longrightarrow> adds P m lo' hi'"
  unfolding adds_def by (metis le_trans)

lemma adds_bind:
  assumes m: "adds P m a b" and f: "\<And>x. adds P (f x) c d"
  shows "adds P (bind m f) (a + c) (b + d)"
  unfolding adds_def
proof
  fix tr
  from m obtain d1 where d1: "snd (m tr) = tr @ d1" "calls P d1 \<le> b"
    "isl (fst (m tr)) \<or> a \<le> calls P d1" unfolding adds_def by blast
  show "\<exists>d'. snd (bind m f tr) = tr @ d' \<and> calls P d' \<le> b + d
        \<and> (isl (fst (bind m f tr)) \<or> a + c \<le> calls P d')"
  proof (cases "m tr")
    case (Pair r tr1)
    with d1 have tr1: "tr1 = tr @ d1" by simp
    show ?thesis
    proof (cases r)
      case (Inl e)
      with Pair d1 show ?thesis by (auto simp: bind_def)
    next
      case (Inr x)
      from f[of x] obtain d2 where d2: "snd (f x tr1) = tr1 @ d2" "calls P d2 \<le> d"
        "isl (fst (f x tr1)) \<or> c \<le> calls P d2" unfolding adds_def by blast
      have "bind m f tr = f x tr1" using Pair Inr by (simp add: bind_def)
      moreover have "a \<le> calls P d1" using d1(3) Pair Inr by simp
      ultimately show ?thesis using d1 d2 tr1
        by (intro exI[of _ "d1 @ d2"]) auto
    qed
  qed
qed

lemma adds_catch:
  assumes m: "adds P m a b" and h: "\<And>e. adds P (h e) c d"
  shows "adds P (catch m h) (min a c) (b + d)"
  unfolding adds_def
proof
  fix tr
  from m obtain d1 where d1: "snd (m tr) = tr @ d1" "calls P d1 \<le> b"
    "isl (fst (m tr)) \<or> a \<le> calls P d1" unfolding adds_def by blast
  show "\<exists>d'. snd (catch m h tr) = tr @ d' \<and> calls P d' \<le> b + d
        \<and> (isl (fst (catch m h tr)) \<or> min a c \<le> calls P d')"
  proof (cases "m tr")
    case (Pair r tr1)
    with d1 have tr1: "tr1 = tr @ d1" by simp
    show ?thesis
    proof (cases r)
      case (Inr x)
      with Pair d1 show ?thesis by (auto simp: catch_def)
    next
      case (Inl e)
      from h[of e] obtain d2 where d2: "snd (h e tr1) = tr1 @ d2" "calls P d2 \<le> d"
        "isl (fst (h e tr1)) \<or> c \<le> calls P d2" unfolding adds_def by blast
      have "catch m h tr = h e tr1" using Pair Inl by (simp add: catch_def)
      then show ?thesis using d1 d2 tr1
        by (intro exI[of _ "d1 @ d2"]) auto
    qed
  qed
qed

text \<open>A computation that adds no call of a kind, composed.\<close>

lemma adds0_bind: "adds P m 0 0 \<Longrightarrow> (\<And>x. adds P (f x) 0 0) \<Longrightarrow> adds P (bind m f) 0 0"
  using adds_bind[of P m 0 0 f 0 0] by simp

lemma adds0_catch: "adds P m 0 0 \<Longrightarrow> (\<And>e. adds P (h e) 0 0) \<Longrightarrow> adds P (catch m h) 0 0"
  using adds_catch[of P m 0 0 h 0 0] by simp

lemma adds_traceD:
  "adds P m lo hi \<Longrightarrow> m tr = (r, tr') \<Longrightarrow>
   \<exists>d. tr' = tr @ d \<and> calls P d \<le> hi \<and> (isl r \<or> lo \<le> calls P d)"
  unfolding adds_def by (metis fst_conv snd_conv)

text \<open>A \<open>try\<close> whose \<open>catch\<close> returns does not raise.\<close>

lemma catch_ret_returns: "\<exists>x tr'. catch m (\<lambda>e. ret (h e)) tr = (Inr x, tr')"
  by (auto simp: catch_def ret_def split: prod.splits sum.splits)

lemma bind_assoc: "bind (bind m f) g = bind m (\<lambda>x. bind (f x) g)"
  by (rule ext) (simp add: bind_def split: prod.splits sum.splits)

lemma bind_ret_left [simp]: "bind (ret x) f = f x"
  by (rule ext) (simp add: bind_def ret_def)

lemma bind_throw_left [simp]: "bind (throw e) f = throw e"
  by (rule ext) (simp add: bind_def throw_def)

section \<open>Committing a plan: the loop and its schedule\<close>

lemma inserts_append: "inserts (xs @ ys) = inserts xs @ inserts ys"
  by (induction xs rule: inserts.induct) auto

lemma tryCreateEvent_result:
  "\<exists>ok tr'. tryCreateEvent env item ed k tr = (Inr (if ok then Suc k else k), tr @ tr')
      \<and> inserts tr' = [(ed, ok)]"
  unfolding tryCreateEvent_def createEvent_def linkEventToObjective_def
  by (auto simp: catch_def bind_def extern_def ret_def throw_def inserts_append split: sum.splits prod.splits)

lemma datesValid_Nil: "datesValid rt c []"
  by (simp add: datesValid_def)

lemma datesValid_Cons:
  "datesValid rt c (item # rest) \<longleftrightarrow>
     (\<exists>s e c'. scheduleStep rt c item = (Some s, c') \<and> eventEndOf rt item s = Some e
        \<and> datesValid rt c' rest)"
  by (cases "scheduleStep rt c item") (auto simp: datesValid_def split: option.splits)


text \<open>The first step with an invalid start or end stops the loop with \<open>RangeError\<close>.\<close>

lemma createPlanLoop_invalid:
  "\<not> datesValid rt c plan \<Longrightarrow> \<exists>tr'. createPlanLoop rt env c k plan tr = (Inl RangeError, tr @ tr')"
proof (induction plan arbitrary: c k tr)
  case Nil
  then show ?case by (simp add: datesValid_Nil)
next
  case (Cons item rest)
  obtain so c' where sc: "scheduleStep rt c item = (so, c')" by (cases "scheduleStep rt c item")
  show ?case
  proof (cases so)
    case None
    then show ?thesis using sc by (simp add: throw_def)
  next
    case (Some s)
    show ?thesis
    proof (cases "eventEndOf rt item s")
      case None
      then show ?thesis using sc Some by (simp add: eventDataOf_def bind_def lift_def)
    next
      case (Some e)
      define ed where "ed = \<lparr> ed_summary = summary item, ed_start = IsoOf s, ed_end = IsoOf e \<rparr>"
      have edo: "eventDataOf rt item s = Inr ed" by (simp add: eventDataOf_def Some ed_def)
      obtain ok tr1 where b: "tryCreateEvent env item ed k tr = (Inr (if ok then Suc k else k), tr @ tr1)"
        using tryCreateEvent_result by blast
      have "\<not> datesValid rt c' rest"
        using Cons.prems sc \<open>so = Some s\<close> Some unfolding datesValid_Cons by simp
      from Cons.IH[OF this, of "if ok then Suc k else k" "tr @ tr1"]
      obtain tr2 where r: "createPlanLoop rt env c' (if ok then Suc k else k) rest (tr @ tr1)
         = (Inl RangeError, (tr @ tr1) @ tr2)" by blast
      have "createPlanLoop rt env c k (item # rest) tr = (Inl RangeError, tr @ (tr1 @ tr2))"
        using sc \<open>so = Some s\<close> edo b r by (simp add: bind_def lift_def)
      then show ?thesis by blast
    qed
  qed
qed















subsection \<open>The schedule of the example runtime\<close>

lemma tomorrow9_rt0: "setHours9 rt0 (nextDay (now rt0)) = 118800000"
  by (simp add: rt0_simps setHours9_def nextDay_def localDay_def msPerDay_def msPerHour_def)

lemma skipWeekend_rt0:
  "skipWeekend rt0 118800000 = 118800000"
  "skipWeekend rt0 (nextDay 118800000) = 378000000"
  "skipWeekend rt0 (nextDay 378000000) = 464400000"
  by (simp_all add: skipWeekend.simps getDay_def localDay_def nextDay_def rt0_simps msPerDay_def)

lemma calendar_insert_simps:
  "calendar_insert env_ok tr ed = Inr event0"
  "calendar_insert env_reject_second tr ed
     = (if length (inserts tr) = 1 then Inl ServiceError else Inr event0)"
  by (simp_all add: env_ok_def env_reject_second_def)

section \<open>Partial commit\<close>





text \<open>
  With a second step of ten million million hours the end of that step is no valid date:
  the first step is inserted, the second raises, and the third is never reached.
\<close>

lemma invalid_end_aborts:
  "\<not> datesValid rt0 (setHours9 rt0 (nextDay (now rt0))) plan_long"
  "handleCreatePlan rt0 env_ok plan_long [] =
     (Inl RangeError, [(CalendarInsert (hourFrom ''A'' 118800000), True)])"
  unfolding handleCreatePlan_def tomorrow9_rt0
  by (simp_all add: datesValid_def plan_long_def scheduleStep_def step_def rt0_simps
      calendar_insert_simps eventDataOf_def eventEndOf_def timeClip_def jsPlus_def jsTimes_def
      maxTime_def hourFrom_def lift_def tryCreateEvent_def createEvent_def bind_def catch_def
      ret_def throw_def extern_def skipWeekend_rt0 Let_def)

section \<open>The schedule of a committed plan\<close>





section \<open>The formatter and the order of its input\<close>

lemma map_of_addToGroup:
  "map_of (addToGroup k e m) =
     (map_of m)(k \<mapsto> (case map_of m k of None \<Rightarrow> [e] | Some es \<Rightarrow> es @ [e]))"
  by (induction m) (auto simp: fun_eq_iff)

lemma keys_addToGroup:
  "map fst (addToGroup k e m) = (if k \<in> fst ` set m then map fst m else map fst m @ [k])"
  by (induction m) force+

lemma groupEvents_invalid:
  "invalidIn rt xs \<Longrightarrow> groupEvents rt xs m = Inl RangeError"
proof (induction xs arbitrary: m)
  case Nil
  then show ?case by (simp add: invalidIn_def)
next
  case (Cons e xs)
  show ?case
  proof (cases "keyOf rt e = Some None")
    case True
    then show ?thesis by (auto simp: keyOf_def Let_def split: if_splits option.splits)
  next
    case False
    with Cons.prems have "invalidIn rt xs" by (auto simp: invalidIn_def)
    from Cons.IH[OF this] show ?thesis by (simp add: Let_def split: option.splits)
  qed
qed

lemma groupEvents_valid:
  "\<not> invalidIn rt xs \<Longrightarrow> distinct (map fst m) \<Longrightarrow>
   \<exists>g. groupEvents rt xs m = Inr g
     \<and> distinct (map fst g)
     \<and> set (map fst g) = set (map fst m) \<union> {k. onDate rt k xs \<noteq> []}
     \<and> (\<forall>k. map_of g k = (case map_of m k of
                 None \<Rightarrow> (if onDate rt k xs = [] then None else Some (onDate rt k xs))
               | Some es \<Rightarrow> Some (es @ onDate rt k xs)))"
proof (induction xs arbitrary: m)
  case Nil
  then show ?case by (auto simp: onDate_def split: option.splits)
next
  case (Cons e xs)
  from Cons.prems have nv: "\<not> invalidIn rt xs" and ne: "keyOf rt e \<noteq> Some None"
    by (auto simp: invalidIn_def)
  show ?case
  proof (cases "keyOf rt e")
    case None
    then have skip: "groupEvents rt (e # xs) m = groupEvents rt xs m"
      by (auto simp: keyOf_def Let_def split: if_splits)
    from None have od: "\<And>k. onDate rt k (e # xs) = onDate rt k xs" by (simp add: onDate_def)
    from Cons.IH[OF nv Cons.prems(2)] show ?thesis unfolding skip od .
  next
    case (Some ko)
    with ne obtain k where k: "keyOf rt e = Some (Some k)" by (cases ko) auto
    then have step: "groupEvents rt (e # xs) m = groupEvents rt xs (addToGroup k e m)"
      by (auto simp: keyOf_def Let_def split: if_splits option.splits)
    have d: "distinct (map fst (addToGroup k e m))"
      using Cons.prems(2) by (auto simp: keys_addToGroup)
    from Cons.IH[OF nv d] obtain g where
      g: "groupEvents rt xs (addToGroup k e m) = Inr g" and dg: "distinct (map fst g)"
      and sg: "set (map fst g) = set (map fst (addToGroup k e m)) \<union> {k. onDate rt k xs \<noteq> []}"
      and mg: "\<forall>k'. map_of g k' = (case map_of (addToGroup k e m) k' of
                 None \<Rightarrow> (if onDate rt k' xs = [] then None else Some (onDate rt k' xs))
               | Some es \<Rightarrow> Some (es @ onDate rt k' xs))" by blast
    have od: "\<And>k'. onDate rt k' (e # xs) = (if k' = k then e # onDate rt k xs else onDate rt k' xs)"
      using k by (auto simp: onDate_def)
    have s: "set (map fst g) = set (map fst m) \<union> {k. onDate rt k (e # xs) \<noteq> []}"
      unfolding sg by (auto simp: keys_addToGroup od)
    have mm: "\<forall>k'. map_of g k' = (case map_of m k' of
                 None \<Rightarrow> (if onDate rt k' (e # xs) = [] then None else Some (onDate rt k' (e # xs)))
               | Some es \<Rightarrow> Some (es @ onDate rt k' (e # xs)))"
      using mg by (auto simp: map_of_addToGroup od split: option.splits)
    show ?thesis unfolding step using g dg s mm by blast
  qed
qed


lemma formatGroups_multi:
  assumes "\<not> (\<exists>k es. g = [(k, es)])"
  shows "formatGroups rt n g = fmt_multi_a @ showNat n @ fmt_multi_b
          @ concat (map (\<lambda>dateKey. formatDaySection rt dateKey (the (map_of g dateKey)))
             (sort (map fst g)))"
proof (cases g)
  case Nil
  then show ?thesis by (simp only: formatGroups_def list.case)
next
  case (Cons p g')
  obtain k es where p: "p = (k, es)" by (cases p)
  with assms Cons obtain q g'' where g': "g' = q # g''" by (cases g') auto
  show ?thesis unfolding Cons p g' by (simp only: formatGroups_def list.case prod.case)
qed

lemma formatGroups_cong:
  assumes dg: "distinct (map fst g)" and dh: "distinct (map fst h)"
    and keys: "set (map fst g) = set (map fst h)"
    and look: "\<And>k. map_of g k = map_of h k"
  shows "formatGroups rt n g = formatGroups rt n h"
proof -
  have len: "length g = length h"
    using dg dh keys by (metis distinct_card length_map)
  have srt: "sort (map fst g) = sort (map fst h)"
    by (rule sorted_distinct_set_unique) (use dg dh keys in simp_all)
  show ?thesis
  proof (cases "\<exists>k es. g = [(k, es)]")
    case True
    then obtain k es where g: "g = [(k, es)]" by blast
    with len obtain k' es' where h: "h = [(k', es')]"
      by (cases h) (auto simp: length_Suc_conv)
    from keys g h have "k' = k" by simp
    moreover from look[of k] g h \<open>k' = k\<close> have "es' = es" by simp
    ultimately show ?thesis using g h by simp
  next
    case False
    then have ng: "\<not> (\<exists>k es. g = [(k, es)])" .
    have nh: "\<not> (\<exists>k es. h = [(k, es)])"
    proof
      assume "\<exists>k es. h = [(k, es)]"
      then obtain k es where "h = [(k, es)]" by blast
      with len obtain k' es' where "g = [(k', es')]"
        by (cases g) (auto simp: length_Suc_conv)
      with ng show False by blast
    qed
    have fg: "formatGroups rt n g = fmt_multi_a @ showNat n @ fmt_multi_b
          @ concat (map (\<lambda>dateKey. formatDaySection rt dateKey (the (map_of g dateKey)))
             (sort (map fst g)))"
      by (rule formatGroups_multi[OF ng])
    have fh: "formatGroups rt n h = fmt_multi_a @ showNat n @ fmt_multi_b
          @ concat (map (\<lambda>dateKey. formatDaySection rt dateKey (the (map_of h dateKey)))
             (sort (map fst h)))"
      by (rule formatGroups_multi[OF nh])
    show ?thesis unfolding fg fh srt using look by simp
  qed
qed

text \<open>
  Claim C9, as amended. \<open>formatEventsForLine\<close> is a function of its input alone, and
  it gives the same text (or raises the same error) for two orders of the same events
  whenever the events filed under each date keep their relative order (the order of the
  events without a valid start does not matter): the sections of a
  reply are sorted by date, but inside one date the events stand in input order. As
  stated, for every permutation, the claim fails: two events of one day swapped are
  numbered the other way round.
\<close>

theorem formatEventsForLine_order:
  assumes perm: "mset ys = mset xs"
    and same: "\<forall>k. onDate rt k ys = onDate rt k xs"
  shows "formatEventsForLine rt ys = formatEventsForLine rt xs"
proof (cases "xs = []")
  case True
  with perm show ?thesis by simp
next
  case False
  with perm have ny: "ys \<noteq> []" by auto
  have len: "length ys = length xs" using perm by (metis size_mset)
  have sets: "set ys = set xs" using perm by (metis set_mset_mset)
  have od: "\<And>k. onDate rt k ys = onDate rt k xs" using same by simp
  show ?thesis
  proof (cases "invalidIn rt xs")
    case True
    then have "invalidIn rt ys" using sets by (simp add: invalidIn_def)
    with True show ?thesis using False ny
      by (simp add: formatEventsForLine_def groupEvents_invalid)
  next
    case nx: False
    then have nyv: "\<not> invalidIn rt ys" using sets by (simp add: invalidIn_def)
    from groupEvents_valid[OF nx, of "[]"] obtain g where
      g: "groupEvents rt xs [] = Inr g" and dg: "distinct (map fst g)"
      and sg: "set (map fst g) = {k. onDate rt k xs \<noteq> []}"
      and mg: "\<forall>k. map_of g k = (if onDate rt k xs = [] then None else Some (onDate rt k xs))"
      by auto
    from groupEvents_valid[OF nyv, of "[]"] obtain h where
      h: "groupEvents rt ys [] = Inr h" and dh: "distinct (map fst h)"
      and sh: "set (map fst h) = {k. onDate rt k ys \<noteq> []}"
      and mh: "\<forall>k. map_of h k = (if onDate rt k ys = [] then None else Some (onDate rt k ys))"
      by auto
    have ks: "set (map fst h) = set (map fst g)" unfolding sg sh od ..
    have lk: "\<And>k. map_of h k = map_of g k" using mg mh od by simp
    have "formatGroups rt (length ys) h = formatGroups rt (length ys) g"
      by (rule formatGroups_cong[OF dh dg ks lk])
    then show ?thesis using False ny g h len by (simp add: formatEventsForLine_def)
  qed
qed

lemma keyOf_examples:
  "keyOf rt0 eventA = Some (Some (ascii ''1970-01-10''))"
  "keyOf rt0 eventB = Some (Some (ascii ''1970-01-10''))"
  "keyOf rt0 eventC = Some (Some (ascii ''1970-01-12''))"
  by (simp_all add: keyOf_def eventA_def eventB_def eventC_def allDay_def orElse_def rt0_simps
      msPerDay_def)

theorem formatEventsForLine_order_witness:
  "mset [eventC, eventA] = mset [eventA, eventC]
   \<and> (\<forall>k. onDate rt0 k [eventC, eventA] = onDate rt0 k [eventA, eventC])
   \<and> formatEventsForLine rt0 [eventC, eventA] = formatEventsForLine rt0 [eventA, eventC]"
proof -
  have p: "mset [eventC, eventA] = mset [eventA, eventC]" by (simp add: add.commute)
  have s: "\<forall>k. onDate rt0 k [eventC, eventA] = onDate rt0 k [eventA, eventC]"
    by (auto simp: onDate_def keyOf_examples)
  from formatEventsForLine_order[OF p s] p s show ?thesis by blast
qed

lemma format_same_day:
  "formatEventsForLine rt0 [eventA, eventB] =
     Inr (formatSingleDay rt0 (ascii ''1970-01-10'') [eventA, eventB])"
  "formatEventsForLine rt0 [eventB, eventA] =
     Inr (formatSingleDay rt0 (ascii ''1970-01-10'') [eventB, eventA])"
  by (simp_all add: formatEventsForLine_def formatGroups_def eventA_def eventB_def allDay_def
      orElse_def rt0_simps msPerDay_def Let_def)

theorem formatEventsForLine_order_counterexample:
  "mset [eventB, eventA] = mset [eventA, eventB]
   \<and> formatEventsForLine rt0 [eventB, eventA] \<noteq> formatEventsForLine rt0 [eventA, eventB]"
proof -
  have "formatSingleDay rt0 (ascii ''1970-01-10'') [eventB, eventA]
      \<noteq> formatSingleDay rt0 (ascii ''1970-01-10'') [eventA, eventB]"
    by (simp add: formatSingleDay_def eventA_def eventB_def allDay_def enumerate_eq_zip
        showNat.simps ascii_def)
  then show ?thesis by (simp add: format_same_day add.commute)
qed

section \<open>Images: the prepared reply and its push\<close>

lemma formatPlanForConfirmation_nonempty [simp]: "formatPlanForConfirmation rt plan g \<noteq> []"
  by (simp add: formatPlanForConfirmation_def)

lemma formatIncompletePlanAsTemplate_nonempty [simp]: "formatIncompletePlanAsTemplate plan \<noteq> []"
  by (simp add: formatIncompletePlanAsTemplate_def)

lemma isPlanComplete_iff: "isPlanComplete plan \<longleftrightarrow> \<not> list_ex undated plan"
  by (simp add: isPlanComplete_def undated_def list_all_iff list_ex_iff)

lemma completeEvents_dated: "\<not> list_ex undated (completeEvents p)"
  by (auto simp: completeEvents_def undated_def list_ex_iff)

lemma uniqueEvents_subset: "set (uniqueEvents xs) \<subseteq> set xs"
  by (auto simp: uniqueEvents_def in_set_enumerate_eq)

lemma postprocessed_complete: "isPlanComplete (uniqueEvents (completeEvents p))"
  using completeEvents_dated[of p] uniqueEvents_subset[of "completeEvents p"]
  by (auto simp: isPlanComplete_iff list_ex_iff)



lemma prepare_nonempty:
  "preparePushMessageFromIntent rt env ctx intent tr = (Inr s, tr') \<Longrightarrow> s \<noteq> []"
  by (auto simp: preparePushMessageFromIntent_def Let_def bind_def ret_def throw_def
      split: if_splits option.splits prod.splits sum.splits)

lemma adds_setUserState_push [simp]: "adds isPush (setUserState env row st) 0 0"
  by (simp add: setUserState_def adds_extern_other)

lemma prepare_no_push: "adds isPush (preparePushMessageFromIntent rt env ctx intent) 0 0"
  by (auto simp: preparePushMessageFromIntent_def Let_def saveKnowledgeNote_def
      intro!: adds0_bind adds0_catch adds_extern_other split: option.splits)

lemma analyze_no_push: "adds isPush (analyzeImageAndPlan env img) 0 0"
  by (auto simp: analyzeImageAndPlan_def intro!: adds0_bind adds0_catch adds_extern_other)

lemma pushed_append: "pushed (xs @ ys) = pushed xs @ pushed ys"
  by (induction xs rule: pushed.induct) auto

lemma no_push_pushed: "calls isPush d = 0 \<Longrightarrow> pushed d = []"
  by (induction d rule: pushed.induct) (auto simp: calls_def)

text \<open>
  Claim C8, as amended. With a line handler registered and a push channel that accepts
  what it is given, every run of the background task returns after exactly one push: the
  prepared text when the analysis and the preparation succeeded, the apology otherwise.
  As stated, for every execution, the claim fails: a channel that rejects the pushes
  sees two attempts and delivers none, and without a registered handler nothing is
  pushed.
\<close>

theorem background_push_once:
  assumes ok: "\<forall>tr uid text. line_push env tr uid text = Inr ()"
  shows "\<exists>d. processImageInBackground rt env True ctx img tr = (Inr (), tr @ d)
     \<and> calls isPush d = 1
     \<and> pushed d =
         [(line_user_id (uc_user ctx),
           (case fst (bind (analyzeImageAndPlan env img)
                        (preparePushMessageFromIntent rt env ctx) tr) of
              Inr pushMessageText \<Rightarrow> pushMessageText
            | Inl e \<Rightarrow> msg_image_apology),
           True)]"
proof -
  let ?m = "bind (analyzeImageAndPlan env img) (preparePushMessageFromIntent rt env ctx)"
  let ?uid = "line_user_id (uc_user ctx)"
  have np: "adds isPush ?m 0 0"
    by (intro adds0_bind analyze_no_push prepare_no_push)
  obtain r tr1 where m: "?m tr = (r, tr1)" by (cases "?m tr")
  from adds_traceD[OF np m] obtain d1 where d1: "tr1 = tr @ d1" "calls isPush d1 = 0" by auto
  have push: "\<And>t. pushMessage env ?uid t tr1 = (Inr (), tr1 @ [(LinePush ?uid t, True)])"
    using ok by (simp add: pushMessage_def catch_def extern_def)
  have run: "processImageInBackground rt env True ctx img tr =
      catch (bind ?m (\<lambda>pushMessageText. if pushMessageText \<noteq> []
                        then pushMessage env ?uid pushMessageText else ret ()))
        (\<lambda>e. pushMessage env ?uid msg_image_apology) tr"
    by (simp add: processImageInBackground_def Let_def bind_assoc)
  show ?thesis
  proof (cases r)
    case (Inl e)
    have "processImageInBackground rt env True ctx img tr
        = (Inr (), tr @ (d1 @ [(LinePush ?uid msg_image_apology, True)]))"
      unfolding run using m Inl push d1 by (simp add: catch_def bind_def)
    moreover have "calls isPush (d1 @ [(LinePush ?uid msg_image_apology, True)]) = 1"
      using d1 by simp
    moreover have "pushed (d1 @ [(LinePush ?uid msg_image_apology, True)])
        = [(?uid, msg_image_apology, True)]"
      using no_push_pushed[OF d1(2)] by (simp add: pushed_append)
    ultimately show ?thesis using m Inl by (intro exI[of _ "d1 @ [(LinePush ?uid msg_image_apology, True)]"]) simp
  next
    case (Inr pmt)
    obtain i tr0 where a: "analyzeImageAndPlan env img tr = (Inr i, tr0)"
      and p: "preparePushMessageFromIntent rt env ctx i tr0 = (Inr pmt, tr1)"
      using m Inr by (auto simp: bind_def split: prod.splits sum.splits)
    from prepare_nonempty[OF p] have ne: "pmt \<noteq> []" .
    have "processImageInBackground rt env True ctx img tr
        = (Inr (), tr @ (d1 @ [(LinePush ?uid pmt, True)]))"
      unfolding run using m Inr push d1 ne by (simp add: catch_def bind_def)
    moreover have "calls isPush (d1 @ [(LinePush ?uid pmt, True)]) = 1"
      using d1 by simp
    moreover have "pushed (d1 @ [(LinePush ?uid pmt, True)]) = [(?uid, pmt, True)]"
      using no_push_pushed[OF d1(2)] by (simp add: pushed_append)
    ultimately show ?thesis using m Inr by (intro exI[of _ "d1 @ [(LinePush ?uid pmt, True)]"]) simp
  qed
qed

theorem background_push_once_witness:
  "(\<forall>tr uid t. line_push env_ok tr uid t = Inr ())
   \<and> (\<exists>d. processImageInBackground rt0 env_ok True (userIn Absent) [] [] = (Inr (), d)
         \<and> calls isPush d = 1
         \<and> pushed d = [(ascii ''U1'', msg_image_not_understood, True)])"
proof -
  have h: "\<forall>tr uid t. line_push env_ok tr uid t = Inr ()" by (simp add: env_ok_def)
  have r: "fst (bind (analyzeImageAndPlan env_ok [])
            (preparePushMessageFromIntent rt0 env_ok (userIn Absent)) [])
      = Inr msg_image_not_understood"
    by (simp add: analyzeImageAndPlan_def preparePushMessageFromIntent_def postProcess_def
        env_ok_def intent0_def bind_def catch_def extern_def ret_def Let_def)
  from background_push_once[OF h, of rt0 "userIn Absent" "[]" "[]"] r
  have "\<exists>d. processImageInBackground rt0 env_ok True (userIn Absent) [] [] = (Inr (), d)
         \<and> calls isPush d = 1
         \<and> pushed d = [(ascii ''U1'', msg_image_not_understood, True)]"
    by (simp add: userIn_def)
  with h show ?thesis by (rule conjI)
qed

theorem background_push_once_counterexample:
  "processImageInBackground rt0 env_push_down True (userIn Absent) [] [] =
     (Inl ServiceError,
      [(LlmImage [], True),
       (LinePush (ascii ''U1'') msg_image_not_understood, False),
       (LinePush (ascii ''U1'') msg_image_apology, False)])
   \<and> processImageInBackground rt0 env_ok False (userIn Absent) [] [] =
     (Inr (), [(LlmImage [], True)])"
  by (simp add: processImageInBackground_def analyzeImageAndPlan_def
      preparePushMessageFromIntent_def postProcess_def pushMessage_def env_push_down_def
      env_ok_def intent0_def userIn_def bind_def catch_def extern_def ret_def throw_def Let_def)

section \<open>The handler of text messages\<close>

subsection \<open>Auxiliary facts\<close>

lemma pureConfirmTerms_short: "t \<in> set pureConfirmTerms \<Longrightarrow> length t < 5"
  by (auto simp: pureConfirmTerms_def)

lemma trim_examples:
  "trim (ascii '' ok '') = ascii ''ok''" "trim (ascii ''OK'') = ascii ''OK''"
  "trim [22909] = [22909]" "trim (ascii ''hi'') = ascii ''hi''" "trim (ascii ''1'') = ascii ''1''"
  by (simp_all add: trim_def isWhiteSpace_def ascii_def)

lemma deleteAll_run:
  assumes del: "\<forall>tr' eid. calendar_delete env tr' eid = Inr ()"
  shows "deleteAll env es tr =
     (Inr (map ev_summary es), tr @ map (\<lambda>e. (CalendarDelete (ev_id e), True)) es)"
proof (induction es arbitrary: tr)
  case Nil
  show ?case by (simp add: ret_def)
next
  case (Cons e es)
  have d: "deleteEventById env (ev_id e) tr = (Inr (), tr @ [(CalendarDelete (ev_id e), True)])"
    using del by (simp add: deleteEventById_def catch_def extern_def)
  show ?case by (simp add: bind_def d Cons.IH ret_def)
qed

lemma deleteSelected_run:
  assumes del: "\<forall>tr' eid. calendar_delete env tr' eid = Inr ()"
  shows "deleteSelected env C indices tr =
     (Inr (map ev_summary (List.map_filter (elementAt C) indices)),
      tr @ map (\<lambda>e. (CalendarDelete (ev_id e), True)) (List.map_filter (elementAt C) indices))"
proof (induction indices arbitrary: tr)
  case Nil
  show ?case by (simp add: ret_def map_filter_simps)
next
  case (Cons i indices)
  show ?case
  proof (cases "elementAt C i")
    case None
    then show ?thesis by (simp add: Cons.IH map_filter_simps)
  next
    case (Some e)
    have d: "deleteEventById env (ev_id e) tr = (Inr (), tr @ [(CalendarDelete (ev_id e), True)])"
      using del by (simp add: deleteEventById_def catch_def extern_def)
    show ?thesis by (simp add: Some bind_def d Cons.IH ret_def map_filter_simps)
  qed
qed

lemma adds_bind_10:
  "adds P m (Suc 0) (Suc 0) \<Longrightarrow> (\<And>x. adds P (f x) 0 0) \<Longrightarrow> adds P (bind m f) (Suc 0) (Suc 0)"
  using adds_bind[of P m "Suc 0" "Suc 0" f 0 0] by simp

lemma adds_bind_01:
  "adds P m 0 0 \<Longrightarrow> (\<And>x. adds P (f x) (Suc 0) (Suc 0)) \<Longrightarrow> adds P (bind m f) (Suc 0) (Suc 0)"
  using adds_bind[of P m 0 0 f "Suc 0" "Suc 0"] by simp

lemma adds_bind_a0:
  "adds P m 0 0 \<Longrightarrow> (\<And>x. adds P (f x) 0 (Suc 0)) \<Longrightarrow> adds P (bind m f) 0 (Suc 0)"
  using adds_bind[of P m 0 0 f 0 "Suc 0"] by simp

lemma adds_bind_0a:
  "adds P m 0 (Suc 0) \<Longrightarrow> (\<And>x. adds P (f x) 0 0) \<Longrightarrow> adds P (bind m f) 0 (Suc 0)"
  using adds_bind[of P m 0 "Suc 0" f 0 0] by simp

lemma adds_catch_a:
  "adds P m 0 (Suc 0) \<Longrightarrow> (\<And>e. adds P (h e) 0 0) \<Longrightarrow> adds P (catch m h) 0 (Suc 0)"
  using adds_catch[of P m 0 "Suc 0" h 0 0] by simp

lemma adds_11_01: "adds P m (Suc 0) (Suc 0) \<Longrightarrow> adds P m 0 (Suc 0)"
  by (erule adds_weaken) simp_all

lemma adds_00_01: "adds P m 0 0 \<Longrightarrow> adds P m 0 (Suc 0)"
  by (erule adds_weaken) simp_all

lemma adds_throw_any [simp]: "adds P (throw e) lo hi"
  by (simp add: adds_def throw_def)

lemma adds_write [simp]: "adds isStateWrite (setUserState env row st) (Suc 0) (Suc 0)"
  by (simp add: setUserState_def adds_extern_one)

lemmas services_defs = findObjectiveByTitle_def linkNoteToObjective_def getKnowledgeNoteById_def
  createLearningObjective_def linkEventToObjective_def saveKnowledgeNote_def
  createEvent_def deleteEventById_def listEvents_def searchEvents_def pushMessage_def
  understandAndPlan_def modifyPlan_def parseDeletionChoice_def mergePlanWithCorrection_def
  processKnowledge_def generatePlanForObjective_def analyzeImageAndPlan_def

lemma services_no_write [simp]:
  "adds isStateWrite (findObjectiveByTitle env uid t) 0 0"
  "adds isStateWrite (linkNoteToObjective env nid oid) 0 0"
  "adds isStateWrite (getKnowledgeNoteById env nid) 0 0"
  "adds isStateWrite (createLearningObjective env uid ti due) 0 0"
  "adds isStateWrite (linkEventToObjective env oid eid) 0 0"
  "adds isStateWrite (saveKnowledgeNote env uid i) 0 0"
  "adds isStateWrite (createEvent env ed) 0 0"
  "adds isStateWrite (deleteEventById env eid) 0 0"
  "adds isStateWrite (listEvents env r) 0 0"
  "adds isStateWrite (searchEvents env q) 0 0"
  "adds isStateWrite (pushMessage env u t') 0 0"
  "adds isStateWrite (understandAndPlan env msg) 0 0"
  "adds isStateWrite (modifyPlan env p msg) 0 0"
  "adds isStateWrite (parseDeletionChoice env msg n) 0 0"
  "adds isStateWrite (mergePlanWithCorrection env ip msg) 0 0"
  "adds isStateWrite (processKnowledge env k msg) 0 0"
  "adds isStateWrite (generatePlanForObjective env ti) 0 0"
  "adds isStateWrite (analyzeImageAndPlan env img) 0 0"
  by (auto simp: services_defs intro!: adds0_bind adds0_catch adds_extern_other
      split: sum.splits)

lemma tryCreateEvent_no_write [simp]: "adds isStateWrite (tryCreateEvent env item s k) 0 0"
  by (auto simp: tryCreateEvent_def intro!: adds0_bind adds0_catch)

lemma createPlanLoop_no_write [simp]: "adds isStateWrite (createPlanLoop rt env c k plan) 0 0"
  by (induction plan arbitrary: c k) (auto intro!: adds0_bind split: prod.splits option.splits)

lemma handleCreatePlan_no_write [simp]: "adds isStateWrite (handleCreatePlan rt env plan) 0 0"
  by (auto simp: handleCreatePlan_def intro!: adds0_bind)

lemma deleteAll_no_write [simp]: "adds isStateWrite (deleteAll env es) 0 0"
  by (induction es) (auto intro!: adds0_bind)

lemma deleteSelected_no_write [simp]: "adds isStateWrite (deleteSelected env C indices) 0 0"
  by (induction indices) (auto intro!: adds0_bind split: option.splits)

lemma formatPlanOrRaise_no_write [simp]: "adds isStateWrite (formatPlanOrRaise rt p g) 0 0"
  by (auto simp: formatPlanOrRaise_def split: option.splits)

lemma handleListEvents_no_write [simp]: "adds isStateWrite (handleListEvents rt env i) 0 0"
  by (auto simp: handleListEvents_def Let_def intro!: adds0_bind adds0_catch)

lemma handleCreateEvent_no_write [simp]: "adds isStateWrite (handleCreateEvent rt env i) 0 0"
  by (auto simp: handleCreateEvent_def Let_def intro!: adds0_bind adds0_catch
      split: option.splits)

lemma adds_if: "adds P a lo hi \<Longrightarrow> adds P b lo hi \<Longrightarrow> adds P (if c then a else b) lo hi"
  by simp

lemma adds_case_option:
  "adds P a lo hi \<Longrightarrow> (\<And>x. adds P (f x) lo hi) \<Longrightarrow> adds P (case v of None \<Rightarrow> a | Some x \<Rightarrow> f x) lo hi"
  by (cases v) simp_all

lemma adds_case_selection:
  "adds P a lo hi \<Longrightarrow> adds P b lo hi \<Longrightarrow> (\<And>x. adds P (f x) lo hi) \<Longrightarrow>
   adds P (case v of SelAll \<Rightarrow> a | SelNone \<Rightarrow> b | SelIndices x \<Rightarrow> f x) lo hi"
  by (cases v) simp_all

lemma adds_case_sum:
  "(\<And>x. adds P (f x) lo hi) \<Longrightarrow> (\<And>y. adds P (g y) lo hi) \<Longrightarrow>
   adds P (case v of Inl x \<Rightarrow> f x | Inr y \<Rightarrow> g y) lo hi"
  by (cases v) simp_all

lemmas adds_rules = adds0_bind adds0_catch adds_bind_10 adds_bind_01 adds_if adds_case_option
  adds_case_selection adds_case_sum

lemmas adds_rules01 = adds_bind_a0 adds_bind_0a adds_catch_a adds_11_01 adds_00_01

lemma handleDeleteRequest_write: "adds isStateWrite (handleDeleteRequest rt env row i) 0 (Suc 0)"
  by (simp add: handleDeleteRequest_def Let_def adds_rules adds_rules01)

lemma waitingConfirmation_write: "adds isStateWrite (waitingConfirmation rt env row st msg) (Suc 0) (Suc 0)"
  by (simp add: waitingConfirmation_def Let_def adds_rules)

lemma waitingDeleteConfirmation_write:
  "adds isStateWrite (waitingDeleteConfirmation env row st msg) (Suc 0) (Suc 0)"
  by (simp add: waitingDeleteConfirmation_def adds_rules)

lemma waitingPlanCorrection_write:
  "adds isStateWrite (waitingPlanCorrection rt env row st msg) (Suc 0) (Suc 0)"
  by (simp add: waitingPlanCorrection_def adds_rules)

lemma waitingKnowledgeAction_write:
  "adds isStateWrite (waitingKnowledgeAction env ctx st msg) 0 (Suc 0)"
  by (simp add: waitingKnowledgeAction_def Let_def adds_rules adds_rules01)

lemma dispatchIntent_write: "adds isStateWrite (dispatchIntent rt env ctx i) 0 (Suc 0)"
  by (simp add: dispatchIntent_def Let_def adds_rules adds_rules01 handleDeleteRequest_write)

lemma freshRequest_write: "adds isStateWrite (freshRequest rt env ctx msg) 0 (Suc 0)"
  by (simp add: freshRequest_def adds_rules adds_rules01 dispatchIntent_write)

lemma bind_InrD:
  "bind m f tr = (Inr y, tr') \<Longrightarrow> \<exists>x tr1. m tr = (Inr x, tr1) \<and> f x tr1 = (Inr y, tr')"
  by (auto simp: bind_def split: prod.splits sum.splits)

lemma understandAndPlan_run:
  "\<exists>i ok. understandAndPlan env msg tr = (Inr i, tr @ [(LlmUnderstand msg, ok)])"
  by (auto simp: understandAndPlan_def catch_def extern_def ret_def split: sum.splits)

lemma freshRequest_returns:
  "\<exists>reply ok d. freshRequest rt env ctx msg tr = (Inr reply, tr @ (LlmUnderstand msg, ok) # d)"
proof -
  obtain i ok where u: "understandAndPlan env msg tr = (Inr i, tr @ [(LlmUnderstand msg, ok)])"
    using understandAndPlan_run by blast
  let ?tr1 = "tr @ [(LlmUnderstand msg, ok)]"
  obtain r tr2 where d: "dispatchIntent rt env ctx i ?tr1 = (r, tr2)"
    by (cases "dispatchIntent rt env ctx i ?tr1")
  from adds_traceD[OF dispatchIntent_write d] obtain d2 where tr2: "tr2 = ?tr1 @ d2" by blast
  have "freshRequest rt env ctx msg tr
      = (case r of Inl e \<Rightarrow> (Inr (Some msg_generic_failure), tr2) | Inr x \<Rightarrow> (Inr x, tr2))"
    by (simp add: freshRequest_def catch_def bind_def u d ret_def split: sum.splits)
  then show ?thesis using tr2 by (cases r) auto
qed

lemma freshRequest_failure:
  assumes "isl (fst (bind (understandAndPlan env msg) (dispatchIntent rt env ctx) tr))"
  shows "fst (freshRequest rt env ctx msg tr) = Inr (Some msg_generic_failure)"
  using assms
  by (auto simp: freshRequest_def catch_def ret_def split: prod.splits sum.splits)

lemma yields_ret [simp]: "yields Q (ret x) \<longleftrightarrow> Q x"
  by (simp add: yields_def ret_def)

lemma yields_throw [simp]: "yields Q (throw e)"
  by (simp add: yields_def throw_def)

lemma yields_bind: "(\<And>x. yields Q (f x)) \<Longrightarrow> yields Q (bind m f)"
  unfolding yields_def by (metis bind_InrD)

lemma yields_if: "yields Q a \<Longrightarrow> yields Q b \<Longrightarrow> yields Q (if c then a else b)"
  by simp

lemma yields_case_option:
  "yields Q a \<Longrightarrow> (\<And>x. yields Q (f x)) \<Longrightarrow> yields Q (case v of None \<Rightarrow> a | Some x \<Rightarrow> f x)"
  by (cases v) simp_all

lemmas yields_rules = yields_bind yields_if yields_case_option

lemma truthy_render: "truthyS r \<Longrightarrow> render r \<noteq> []"
  by (cases r) simp_all

lemma handleCreatePlan_nonempty: "yields (\<lambda>s. s \<noteq> []) (handleCreatePlan rt env plan)"
  by (simp add: handleCreatePlan_def yields_rules)

lemma formatPlanOrRaise_yields: "yields (\<lambda>s. True) (formatPlanOrRaise rt p g)"
  by (simp add: yields_def)

lemma waitingConfirmation_nonempty: "yields (\<lambda>s. s \<noteq> []) (waitingConfirmation rt env row st msg)"
  by (simp add: waitingConfirmation_def Let_def yields_rules handleCreatePlan_nonempty
      truthy_render split: option.splits)

lemma waitingDeleteConfirmation_nonempty:
  "yields (\<lambda>s. s \<noteq> []) (waitingDeleteConfirmation env row st msg)"
  by (simp add: waitingDeleteConfirmation_def yields_rules)

lemma waitingPlanCorrection_nonempty:
  "yields (\<lambda>s. s \<noteq> []) (waitingPlanCorrection rt env row st msg)"
  by (simp add: waitingPlanCorrection_def yields_rules)

lemma exactly_one:
  assumes "adds isStateWrite m (Suc 0) (Suc 0)" and "m tr = (Inr x, tr')"
  shows "\<exists>d. tr' = tr @ d \<and> calls isStateWrite d = 1"
  using adds_traceD[OF assms] by auto

lemma knowledge_writes:
  assumes run: "waitingKnowledgeAction env ctx st msg tr = (Inr s, tr')"
  shows "\<exists>d. tr' = tr @ d \<and> (calls isStateWrite d = 1
      \<or> (calls isStateWrite d = 0 \<and> (\<exists>t. s = msg_objective_missing_a @ t @ msg_objective_missing_check)))"
proof (cases "truthyN (us_noteId st)")
  case False
  have "adds isStateWrite (waitingKnowledgeAction env ctx st msg) (Suc 0) (Suc 0)"
    using False by (simp add: waitingKnowledgeAction_def Let_def adds_rules)
  from exactly_one[OF this run] show ?thesis by blast
next
  case True
  let ?row = "rowNumber ctx" and ?uid = "user_id (uc_user ctx)" and ?nid = "the (us_noteId st)"
  define archive where "archive = (\<lambda>title (found :: objective option). case found of
        None \<Rightarrow> ret (msg_objective_missing_a @ render title @ msg_objective_missing_check)
      | Some objective \<Rightarrow>
          bind (linkNoteToObjective env ?nid (objective_id objective))
            (\<lambda>_. bind (setUserState env ?row None)
                    (\<lambda>_. ret (msg_archived_a @ ob_title objective @ msg_archived_b))))"
  define generate where "generate = bind (getKnowledgeNoteById env ?nid)
       (\<lambda>knowledgeData. case knowledgeData of
            None \<Rightarrow> bind (setUserState env ?row None) (\<lambda>_. ret msg_note_read_failed)
          | Some k \<Rightarrow> bind (processKnowledge env k msg)
                (\<lambda>finalResult. bind (setUserState env ?row None) (\<lambda>_. ret finalResult)))"
  define after where "after = (\<lambda>intent :: intent.
     let objectiveTitle = (case i_params intent of None \<Rightarrow> None | Some p \<Rightarrow> p_objectiveTitle p)
     in if i_action intent = Some (ascii ''link_note_to_objective'') \<and> truthyS objectiveTitle
        then bind (findObjectiveByTitle env ?uid objectiveTitle) (archive objectiveTitle)
        else generate)"
  have w: "waitingKnowledgeAction env ctx st msg = bind (understandAndPlan env msg) after"
    using True unfolding waitingKnowledgeAction_def after_def archive_def generate_def Let_def
    by simp
  from bind_InrD[OF run[unfolded w]] obtain intent tr1 where
    u: "understandAndPlan env msg tr = (Inr intent, tr1)" and a: "after intent tr1 = (Inr s, tr')"
    by blast
  from adds_traceD[OF services_no_write(12) u] obtain d1 where
    d1: "tr1 = tr @ d1" "calls isStateWrite d1 = 0" by auto
  have g: "adds isStateWrite generate (Suc 0) (Suc 0)"
    by (simp add: generate_def adds_rules)
  let ?title = "case i_params intent of None \<Rightarrow> None | Some p \<Rightarrow> p_objectiveTitle p"
  show ?thesis
  proof (cases "i_action intent = Some (ascii ''link_note_to_objective'') \<and> truthyS ?title")
    case False
    then have "after intent = generate" by (auto simp: after_def Let_def)
    with a have "generate tr1 = (Inr s, tr')" by simp
    from exactly_one[OF g this] obtain d2 where "tr' = tr1 @ d2" "calls isStateWrite d2 = 1" by blast
    with d1 show ?thesis by (intro exI[of _ "d1 @ d2"]) simp
  next
    case True
    then have "after intent = bind (findObjectiveByTitle env ?uid ?title) (archive ?title)"
      by (simp add: after_def Let_def)
    with a have "bind (findObjectiveByTitle env ?uid ?title) (archive ?title) tr1 = (Inr s, tr')"
      by simp
    from bind_InrD[OF this] obtain found tr2 where
      f: "findObjectiveByTitle env ?uid ?title tr1 = (Inr found, tr2)"
      and r: "archive ?title found tr2 = (Inr s, tr')"
      by blast
    from adds_traceD[OF services_no_write(1) f] obtain d2 where
      d2: "tr2 = tr1 @ d2" "calls isStateWrite d2 = 0" by auto
    show ?thesis
    proof (cases found)
      case None
      with r have "s = msg_objective_missing_a @ render ?title @ msg_objective_missing_check"
        and "tr' = tr2" by (simp_all add: archive_def ret_def)
      with d1 d2 show ?thesis by (intro exI[of _ "d1 @ d2"]) auto
    next
      case (Some objective)
      have aw: "adds isStateWrite (archive ?title (Some objective)) (Suc 0) (Suc 0)"
        by (simp add: archive_def adds_rules)
      from r Some have ar: "archive ?title (Some objective) tr2 = (Inr s, tr')" by simp
      from exactly_one[OF aw ar] obtain d3 where "tr' = tr2 @ d3" "calls isStateWrite d3 = 1"
        by blast
      with d1 d2 show ?thesis by (intro exI[of _ "d1 @ d2 @ d3"]) simp
    qed
  qed
qed

subsection \<open>Confirming a plan\<close>

text \<open>
  Claim C2, as amended. In the state \<open>waiting_confirmation\<close> with a stored plan of
  any length, a reply that after trimming is exactly one of the confirmation terms
  (among them the four of the claim; the comparison is case-sensitive, and every term is
  shorter than 5) makes \<open>handleMessage\<close> write the state Idle and then run
  \<open>handleCreatePlan\<close> on exactly the stored plan, provided the store takes the write.
  As stated, with a case-insensitive match, the claim fails: the reply \<open>OK\<close> is handed
  to \<open>modifyPlan\<close> and the state stays \<open>waiting_confirmation\<close>.
\<close>

theorem confirmation_commits_plan:
  assumes st: "state_json (uc_user ctx) = Stored st"
    and ws: "us_status st = Some (ascii ''waiting_confirmation'')"
    and pl: "us_plan st = Some plan"
    and msg: "trim message \<in> set pureConfirmTerms"
    and wr: "sheet_setUserState env tr (rowNumber ctx) None = Inr ()"
  shows "handleMessage rt env ctx message tr =
           bind (handleCreatePlan rt env plan) (\<lambda>s. ret (Some s))
             (tr @ [(SetUserState (rowNumber ctx) None, True)])
         \<and> {[22909], [21487, 20197], ascii ''ok'', [21516, 24847]} \<subseteq> set pureConfirmTerms"
proof
  have pc: "isPureConfirmation (trim message)"
    using msg pureConfirmTerms_short by (simp add: isPureConfirmation_def)
  have "waitingConfirmation rt env (rowNumber ctx) st message tr =
      handleCreatePlan rt env plan (tr @ [(SetUserState (rowNumber ctx) None, True)])"
    using pc pl wr by (simp add: waitingConfirmation_def Let_def setUserState_def bind_def extern_def)
  then show "handleMessage rt env ctx message tr =
           bind (handleCreatePlan rt env plan) (\<lambda>s. ret (Some s))
             (tr @ [(SetUserState (rowNumber ctx) None, True)])"
    using st ws by (simp add: handleMessage_def Let_def bind_def)
  show "{[22909], [21487, 20197], ascii ''ok'', [21516, 24847]} \<subseteq> set pureConfirmTerms"
    by (simp add: pureConfirmTerms_def ascii_def)
qed

theorem confirmation_commits_plan_witness:
  "state_json (uc_user (userIn (Stored (confirmationState (Some plan_abc)))))
      = Stored (confirmationState (Some plan_abc))
   \<and> trim (ascii '' ok '') \<in> set pureConfirmTerms
   \<and> handleMessage rt0 env_ok (userIn (Stored (confirmationState (Some plan_abc)))) (ascii '' ok '') [] =
       bind (handleCreatePlan rt0 env_ok plan_abc) (\<lambda>s. ret (Some s)) [(SetUserState 7 None, True)]"
proof -
  let ?ctx = "userIn (Stored (confirmationState (Some plan_abc)))"
  have a: "state_json (uc_user ?ctx) = Stored (confirmationState (Some plan_abc))"
    by (simp add: userIn_def)
  have b: "us_status (confirmationState (Some plan_abc)) = Some (ascii ''waiting_confirmation'')"
    by (simp add: confirmationState_def noState_def)
  have c: "us_plan (confirmationState (Some plan_abc)) = Some plan_abc"
    by (simp add: confirmationState_def noState_def)
  have d: "trim (ascii '' ok '') \<in> set pureConfirmTerms"
    unfolding trim_examples by (simp add: pureConfirmTerms_def ascii_def)
  have e: "sheet_setUserState env_ok [] (rowNumber ?ctx) None = Inr ()"
    by (simp add: env_ok_def)
  from confirmation_commits_plan[OF a b c d e, of rt0] a d show ?thesis
    by (simp add: userIn_def)
qed

theorem confirmation_commits_plan_counterexample:
  "toLowerCase rt0 (trim (ascii ''OK'')) = ascii ''ok'' \<and> length (trim (ascii ''OK'')) < 5
   \<and> handleMessage rt0 env_ok (userIn (Stored (confirmationState (Some plan_abc)))) (ascii ''OK'') [] =
       (Inr (Some (msg_adjusted_prefix @ formatPlanForConfirmation rt0 plan_abc False)),
        [(LlmModifyPlan (Some plan_abc) (ascii ''OK''), True),
         (SetUserState 7 (Some (confirmationState (Some plan_abc))), True)])
   \<and> handleMessage rt0 env_store_down (userIn (Stored (confirmationState (Some plan_abc)))) [22909] [] =
       (Inl ServiceError, [(SetUserState 7 None, False)])"
proof (intro conjI)
  show "toLowerCase rt0 (trim (ascii ''OK'')) = ascii ''ok''"
    by (simp add: trim_examples rt0_simps) (simp add: ascii_def)
  show "length (trim (ascii ''OK'')) < 5" by (simp add: trim_examples)
  have neg: "\<not> isNegative rt0 (ascii ''OK'')"
    by (simp add: isNegative_def rt0_simps negativeResponses_def ascii_def)
  have pc: "\<not> isPureConfirmation (ascii ''OK'')"
    by (simp add: isPureConfirmation_def pureConfirmTerms_def ascii_def)
  show "handleMessage rt0 env_ok (userIn (Stored (confirmationState (Some plan_abc)))) (ascii ''OK'') [] =
       (Inr (Some (msg_adjusted_prefix @ formatPlanForConfirmation rt0 plan_abc False)),
        [(LlmModifyPlan (Some plan_abc) (ascii ''OK''), True),
         (SetUserState 7 (Some (confirmationState (Some plan_abc))), True)])"
    using neg pc
    by (simp add: handleMessage_def waitingConfirmation_def userIn_def trim_examples Let_def
        confirmationState_def noState_def modifyPlan_def planIntent_def emptyIntent_def
        formatPlanOrRaise_def setUserState_def env_ok_def bind_def catch_def extern_def ret_def)
  have pc2: "isPureConfirmation [22909]"
    by (simp add: isPureConfirmation_def pureConfirmTerms_def)
  show "handleMessage rt0 env_store_down (userIn (Stored (confirmationState (Some plan_abc)))) [22909] [] =
       (Inl ServiceError, [(SetUserState 7 None, False)])"
    using pc2
    by (simp add: handleMessage_def waitingConfirmation_def userIn_def trim_examples Let_def
        confirmationState_def noState_def setUserState_def env_store_down_def env_ok_def
        bind_def extern_def)
qed

subsection \<open>Confirming a deletion\<close>

text \<open>
  Claim C7. In the state \<open>waiting_delete_confirmation\<close> with the candidates \<open>C\<close>,
  when \<open>parseDeletionChoice\<close> resolves the reply to a selection, the handler deletes
  the candidates that the selection names, in its order, and then writes the state Idle:
  \<open>all\<close> names every candidate, \<open>none\<close> names nothing, and a list of indices names
  the candidates at those positions, counted from 0 (so \<open>[0, 2]\<close> names the first
  and the third). The Event Store and the state store are taken to perform what they are
  asked.
\<close>

theorem delete_confirmation:
  assumes st: "state_json (uc_user ctx) = Stored st"
    and ws: "us_status st = Some (ascii ''waiting_delete_confirmation'')"
    and ev: "us_events st = Some C"
    and choice: "parseDeletionChoice env message (length C) tr = (Inr sel, tr1)"
    and del: "\<forall>tr' eid. calendar_delete env tr' eid = Inr ()"
    and wr: "\<forall>tr'. sheet_setUserState env tr' (rowNumber ctx) None = Inr ()"
  shows "handleMessage rt env ctx message tr =
           (Inr (Some (if selected C sel \<noteq> []
                       then msg_deleted_a @ showNat (length (selected C sel)) @ msg_deleted_b
                            @ join sep_dash (map ev_summary (selected C sel))
                       else msg_delete_cancelled)),
            tr1 @ map (\<lambda>e. (CalendarDelete (ev_id e), True)) (selected C sel)
                @ [(SetUserState (rowNumber ctx) None, True)])
         \<and> selected C SelAll = C \<and> selected C SelNone = []
         \<and> (2 < length C \<longrightarrow> selected C (SelIndices [0, 2]) = [C ! 0, C ! 2])"
proof (intro conjI impI)
  let ?loop = "case sel of SelAll \<Rightarrow> deleteAll env C
                | SelIndices indices \<Rightarrow> deleteSelected env C indices
                | SelNone \<Rightarrow> ret []"
  have loop: "?loop tr1 = (Inr (map ev_summary (selected C sel)),
       tr1 @ map (\<lambda>e. (CalendarDelete (ev_id e), True)) (selected C sel))"
    by (cases sel) (simp_all add: deleteAll_run[OF del] deleteSelected_run[OF del] ret_def)
  have "waitingDeleteConfirmation env (rowNumber ctx) st message tr =
           (Inr (if selected C sel \<noteq> []
                       then msg_deleted_a @ showNat (length (selected C sel)) @ msg_deleted_b
                            @ join sep_dash (map ev_summary (selected C sel))
                       else msg_delete_cancelled),
            tr1 @ map (\<lambda>e. (CalendarDelete (ev_id e), True)) (selected C sel)
                @ [(SetUserState (rowNumber ctx) None, True)])"
    using ev choice loop wr
    by (simp add: waitingDeleteConfirmation_def bind_def setUserState_def extern_def ret_def)
  then show "handleMessage rt env ctx message tr =
           (Inr (Some (if selected C sel \<noteq> []
                       then msg_deleted_a @ showNat (length (selected C sel)) @ msg_deleted_b
                            @ join sep_dash (map ev_summary (selected C sel))
                       else msg_delete_cancelled)),
            tr1 @ map (\<lambda>e. (CalendarDelete (ev_id e), True)) (selected C sel)
                @ [(SetUserState (rowNumber ctx) None, True)])"
    using st ws by (simp add: handleMessage_def Let_def bind_def ret_def)
  show "selected C SelAll = C" by simp
  show "selected C SelNone = []" by simp
  assume "2 < length C"
  then show "selected C (SelIndices [0, 2]) = [C ! 0, C ! 2]"
    by (auto simp add: map_filter_simps elementAt_def)
qed

theorem delete_confirmation_witness:
  "parseDeletionChoice env_pick_1_3 (ascii ''1 3'') (length [eventA, eventB, eventC]) []
     = (Inr (SelIndices [0, 2]), [(LlmDeletionChoice (ascii ''1 3'') 3, True)])
   \<and> selected [eventA, eventB, eventC] (SelIndices [0, 2]) = [eventA, eventC]
   \<and> snd (handleMessage rt0 env_pick_1_3 (userIn (Stored (deleteState [eventA, eventB, eventC])))
            (ascii ''1 3'') []) =
       [(LlmDeletionChoice (ascii ''1 3'') 3, True), (CalendarDelete (ascii ''A''), True),
        (CalendarDelete (ascii ''C''), True), (SetUserState 7 None, True)]"
proof -
  let ?C = "[eventA, eventB, eventC]"
  let ?ctx = "userIn (Stored (deleteState ?C))"
  have a: "state_json (uc_user ?ctx) = Stored (deleteState ?C)" by (simp add: userIn_def)
  have b: "us_status (deleteState ?C) = Some (ascii ''waiting_delete_confirmation'')"
    by (simp add: deleteState_def noState_def)
  have c: "us_events (deleteState ?C) = Some ?C" by (simp add: deleteState_def noState_def)
  have d: "parseDeletionChoice env_pick_1_3 (ascii ''1 3'') (length ?C) []
     = (Inr (SelIndices [0, 2]), [(LlmDeletionChoice (ascii ''1 3'') 3, True)])"
    by (simp add: parseDeletionChoice_def env_pick_1_3_def env_ok_def catch_def extern_def)
  have e: "\<forall>tr' eid. calendar_delete env_pick_1_3 tr' eid = Inr ()"
    by (simp add: env_pick_1_3_def env_ok_def)
  have f: "\<forall>tr'. sheet_setUserState env_pick_1_3 tr' (rowNumber ?ctx) None = Inr ()"
    by (simp add: env_pick_1_3_def env_ok_def)
  have s: "selected ?C (SelIndices [0, 2]) = [eventA, eventC]"
    by (simp add: map_filter_simps elementAt_def)
  from delete_confirmation[OF a b c d e f, of rt0] d s show ?thesis
    by (simp add: userIn_def eventA_def eventC_def allDay_def)
qed

subsection \<open>Missing and unknown states\<close>

text \<open>
  Claim C6, as amended. A persisted state that is \<open>null\<close>, empty or parses to a falsy
  value is Idle: the message is a fresh request. A state whose status is none of the
  four known ones is reset to Idle by one write, and once the store has taken that write
  the same message goes on as a fresh request, exactly as from Idle. A fresh request
  always returns a reply, and it begins by consulting the Oracle. As stated the claim
  fails twice: a text that \<open>JSON.parse\<close> rejects makes \<open>handleMessage\<close> raise
  \<open>SyntaxError\<close>, and the reset of an unknown state is followed by an Oracle call.
\<close>

theorem unknown_state_reset:
  "(state_json (uc_user ctx) = Absent \<or> state_json (uc_user ctx) = Falsy
      \<longrightarrow> handleMessage rt env ctx message tr = freshRequest rt env ctx message tr)
   \<and> (state_json (uc_user ctx) = Stored st \<and> \<not> knownStatus (us_status st)
        \<and> sheet_setUserState env tr (rowNumber ctx) None = Inr ()
      \<longrightarrow> handleMessage rt env ctx message tr =
           freshRequest rt env ctx message (tr @ [(SetUserState (rowNumber ctx) None, True)]))
   \<and> (\<exists>reply ok d. freshRequest rt env ctx message tr0 =
          (Inr reply, tr0 @ (LlmUnderstand message, ok) # d))"
proof (intro conjI impI)
  assume "state_json (uc_user ctx) = Absent \<or> state_json (uc_user ctx) = Falsy"
  then show "handleMessage rt env ctx message tr = freshRequest rt env ctx message tr"
    by (auto simp: handleMessage_def Let_def)
next
  assume a: "state_json (uc_user ctx) = Stored st \<and> \<not> knownStatus (us_status st)
        \<and> sheet_setUserState env tr (rowNumber ctx) None = Inr ()"
  then show "handleMessage rt env ctx message tr =
           freshRequest rt env ctx message (tr @ [(SetUserState (rowNumber ctx) None, True)])"
    by (simp add: handleMessage_def Let_def knownStatus_def setUserState_def bind_def extern_def)
next
  show "\<exists>reply ok d. freshRequest rt env ctx message tr0 =
          (Inr reply, tr0 @ (LlmUnderstand message, ok) # d)"
    by (rule freshRequest_returns)
qed

lemma bogus_run:
  "handleMessage rt0 env_ok (userIn (Stored bogusState)) (ascii ''hi'') [] =
     (Inr (Some msg_not_understood),
      [(SetUserState 7 None, True), (LlmUnderstand (ascii ''hi''), True)])"
  by (simp add: handleMessage_def freshRequest_def understandAndPlan_def dispatchIntent_def
      userIn_def bogusState_def noState_def setUserState_def env_ok_def intent0_def Let_def
      bind_def catch_def extern_def ret_def)

theorem unknown_state_reset_witness:
  "state_json (uc_user (userIn (Stored bogusState))) = Stored bogusState
   \<and> \<not> knownStatus (us_status bogusState)
   \<and> handleMessage rt0 env_ok (userIn (Stored bogusState)) (ascii ''hi'') [] =
       freshRequest rt0 env_ok (userIn (Stored bogusState)) (ascii ''hi'')
         [(SetUserState 7 None, True)]"
proof -
  let ?ctx = "userIn (Stored bogusState)"
  have a: "state_json (uc_user ?ctx) = Stored bogusState" by (simp add: userIn_def)
  have b: "\<not> knownStatus (us_status bogusState)"
    by (simp add: knownStatus_def bogusState_def noState_def)
  have c: "sheet_setUserState env_ok [] (rowNumber ?ctx) None = Inr ()" by (simp add: env_ok_def)
  from unknown_state_reset[of ?ctx rt0 env_ok "ascii ''hi''" "[]" bogusState] a b c
  show ?thesis by (simp add: userIn_def)
qed

theorem unknown_state_reset_counterexample:
  "handleMessage rt0 env_ok (userIn Malformed) (ascii ''hi'') [] = (Inl SyntaxError, [])
   \<and> snd (handleMessage rt0 env_ok (userIn (Stored bogusState)) (ascii ''hi'') []) =
       [(SetUserState 7 None, True), (LlmUnderstand (ascii ''hi''), True)]
   \<and> calls isOracleCall
       (snd (handleMessage rt0 env_ok (userIn (Stored bogusState)) (ascii ''hi'') [])) = 1"
  by (simp add: bogus_run) (simp add: handleMessage_def userIn_def throw_def)

subsection \<open>Errors at the entry point\<close>

text \<open>
  Claim C1, as amended. For a user without a pending state \<open>handleMessage\<close> returns
  and never raises: whatever is raised while the fresh request is handled, also by an
  external collaborator, becomes the generic failure reply. As stated, for every user
  context, the claim fails: the replies in a waiting state are handled outside the
  \<open>try\<close>, and an exception of a collaborator there leaves \<open>handleMessage\<close>.
\<close>

theorem fresh_request_returns:
  assumes "state_json (uc_user ctx) = Absent \<or> state_json (uc_user ctx) = Falsy"
  shows "\<exists>reply tr'. handleMessage rt env ctx message tr = (Inr reply, tr')
     \<and> (isl (fst (bind (understandAndPlan env message) (dispatchIntent rt env ctx) tr))
          \<longrightarrow> reply = Some msg_generic_failure)"
proof -
  have h: "handleMessage rt env ctx message tr = freshRequest rt env ctx message tr"
    using assms by (auto simp: handleMessage_def Let_def)
  obtain reply ok d where r: "freshRequest rt env ctx message tr =
      (Inr reply, tr @ (LlmUnderstand message, ok) # d)"
    using freshRequest_returns by blast
  have "isl (fst (bind (understandAndPlan env message) (dispatchIntent rt env ctx) tr))
          \<longrightarrow> reply = Some msg_generic_failure"
    using freshRequest_failure[of env message rt ctx tr] r by auto
  with h r show ?thesis by simp
qed

lemma store_down_run:
  "handleMessage rt0 env_plan_store_down (userIn Absent) (ascii ''hi'') [] =
     (Inr (Some msg_generic_failure),
      [(LlmUnderstand (ascii ''hi''), True),
       (SetUserState 7 (Some (confirmationState (Some plan_abc))), False)])"
  by (simp add: handleMessage_def freshRequest_def understandAndPlan_def dispatchIntent_def
      userIn_def setUserState_def env_plan_store_down_def env_store_down_def env_ok_def
      emptyIntent_def Let_def bind_def catch_def extern_def ret_def)

theorem fresh_request_returns_witness:
  "state_json (uc_user (userIn Absent)) = Absent
   \<and> isl (fst (bind (understandAndPlan env_plan_store_down (ascii ''hi''))
                  (dispatchIntent rt0 env_plan_store_down (userIn Absent)) []))
   \<and> fst (handleMessage rt0 env_plan_store_down (userIn Absent) (ascii ''hi'') [])
       = Inr (Some msg_generic_failure)"
proof -
  have a: "state_json (uc_user (userIn Absent)) = Absent \<or> state_json (uc_user (userIn Absent)) = Falsy"
    by (simp add: userIn_def)
  have b: "isl (fst (bind (understandAndPlan env_plan_store_down (ascii ''hi''))
                  (dispatchIntent rt0 env_plan_store_down (userIn Absent)) []))"
    by (simp add: understandAndPlan_def dispatchIntent_def
      userIn_def setUserState_def env_plan_store_down_def env_store_down_def env_ok_def
      emptyIntent_def Let_def bind_def catch_def extern_def ret_def)
  from fresh_request_returns[OF a, of rt0 env_plan_store_down "ascii ''hi''" "[]"] b
  show ?thesis by (auto simp: userIn_def)
qed

theorem fresh_request_returns_counterexample:
  "handleMessage rt0 env_delete_fails (userIn (Stored (deleteState [eventA]))) (ascii ''1'') [] =
     (Inl ServiceError,
      [(LlmDeletionChoice (ascii ''1'') 1, True), (CalendarDelete (ascii ''A''), False)])"
  by (simp add: handleMessage_def waitingDeleteConfirmation_def parseDeletionChoice_def
      deleteEventById_def userIn_def deleteState_def noState_def env_delete_fails_def env_ok_def
      eventA_def allDay_def Let_def bind_def catch_def extern_def ret_def throw_def)

subsection \<open>Writes of the state cell\<close>

text \<open>
  Claim C3, as amended. When \<open>handleMessage\<close> returns, it has written the state cell
  of the user at most twice. In the states \<open>waiting_confirmation\<close>,
  \<open>waiting_delete_confirmation\<close> and \<open>waiting_plan_correction\<close> it has written it
  exactly once and the reply is a text that is not empty. In the state
  \<open>waiting_knowledge_action\<close> it has written it once, or not at all when the reply
  is that the objective was not found. From Idle it has written it at most once, and
  with an unknown status at least once. As stated, exactly one write and a reply that is
  not empty for every message, the claim fails: a \<open>clarify_or_reject\<close> intent with an
  empty response from Idle gives no write and an empty reply.
\<close>

theorem handleMessage_state_writes:
  assumes run: "handleMessage rt env ctx message tr = (Inr reply, tr')"
  shows "\<exists>d. tr' = tr @ d \<and> calls isStateWrite d \<le> 2
     \<and> (state_json (uc_user ctx) = Absent \<or> state_json (uc_user ctx) = Falsy
          \<longrightarrow> calls isStateWrite d \<le> 1)
     \<and> (\<forall>st. state_json (uc_user ctx) = Stored st \<longrightarrow>
          (us_status st = Some (ascii ''waiting_confirmation'')
             \<or> us_status st = Some (ascii ''waiting_delete_confirmation'')
             \<or> us_status st = Some (ascii ''waiting_plan_correction'')
           \<longrightarrow> calls isStateWrite d = 1 \<and> (\<exists>s. reply = Some s \<and> s \<noteq> []))
        \<and> (us_status st = Some (ascii ''waiting_knowledge_action'')
           \<longrightarrow> calls isStateWrite d = 1
               \<or> (calls isStateWrite d = 0
                   \<and> (\<exists>t. reply = Some (msg_objective_missing_a @ t
                                          @ msg_objective_missing_check))))
        \<and> (\<not> knownStatus (us_status st) \<longrightarrow> 1 \<le> calls isStateWrite d))"
proof (cases "state_json (uc_user ctx)")
  case Absent
  then have "handleMessage rt env ctx message = freshRequest rt env ctx message"
    by (simp add: handleMessage_def Let_def)
  from adds_traceD[OF freshRequest_write run[unfolded this]] Absent show ?thesis by auto
next
  case Falsy
  then have "handleMessage rt env ctx message = freshRequest rt env ctx message"
    by (simp add: handleMessage_def Let_def)
  from adds_traceD[OF freshRequest_write run[unfolded this]] Falsy show ?thesis by auto
next
  case Malformed
  with run show ?thesis by (simp add: handleMessage_def Let_def throw_def)
next
  case (Stored st)
  let ?row = "rowNumber ctx"
  consider (c) "us_status st = Some (ascii ''waiting_confirmation'')"
    | (d) "us_status st = Some (ascii ''waiting_delete_confirmation'')"
    | (p) "us_status st = Some (ascii ''waiting_plan_correction'')"
    | (k) "us_status st = Some (ascii ''waiting_knowledge_action'')"
    | (u) "\<not> knownStatus (us_status st)"
    by (auto simp: knownStatus_def)
  then show ?thesis
  proof cases
    case c
    then have h: "handleMessage rt env ctx message =
        bind (waitingConfirmation rt env ?row st message) (\<lambda>s. ret (Some s))"
      using Stored by (simp add: handleMessage_def Let_def)
    from run[unfolded h] obtain s where
      r: "waitingConfirmation rt env ?row st message tr = (Inr s, tr')" and s: "reply = Some s"
      by (auto dest!: bind_InrD simp: ret_def)
    from exactly_one[OF waitingConfirmation_write r] obtain d where
      d: "tr' = tr @ d" "calls isStateWrite d = 1" by blast
    have "s \<noteq> []" using waitingConfirmation_nonempty r unfolding yields_def by blast
    with d s c Stored show ?thesis by (intro exI[of _ d]) (auto simp: knownStatus_def)
  next
    case d
    then have h: "handleMessage rt env ctx message =
        bind (waitingDeleteConfirmation env ?row st message) (\<lambda>s. ret (Some s))"
      using Stored by (simp add: handleMessage_def Let_def)
    from run[unfolded h] obtain s where
      r: "waitingDeleteConfirmation env ?row st message tr = (Inr s, tr')" and s: "reply = Some s"
      by (auto dest!: bind_InrD simp: ret_def)
    from exactly_one[OF waitingDeleteConfirmation_write r] obtain dd where
      dd: "tr' = tr @ dd" "calls isStateWrite dd = 1" by blast
    have "s \<noteq> []" using waitingDeleteConfirmation_nonempty r unfolding yields_def by blast
    with dd s d Stored show ?thesis by (intro exI[of _ dd]) (auto simp: knownStatus_def)
  next
    case p
    then have h: "handleMessage rt env ctx message =
        bind (waitingPlanCorrection rt env ?row st message) (\<lambda>s. ret (Some s))"
      using Stored by (simp add: handleMessage_def Let_def)
    from run[unfolded h] obtain s where
      r: "waitingPlanCorrection rt env ?row st message tr = (Inr s, tr')" and s: "reply = Some s"
      by (auto dest!: bind_InrD simp: ret_def)
    from exactly_one[OF waitingPlanCorrection_write r] obtain d where
      d: "tr' = tr @ d" "calls isStateWrite d = 1" by blast
    have "s \<noteq> []" using waitingPlanCorrection_nonempty r unfolding yields_def by blast
    with d s p Stored show ?thesis by (intro exI[of _ d]) (auto simp: knownStatus_def)
  next
    case k
    then have h: "handleMessage rt env ctx message =
        bind (waitingKnowledgeAction env ctx st message) (\<lambda>s. ret (Some s))"
      using Stored by (simp add: handleMessage_def Let_def)
    from run[unfolded h] obtain s where
      r: "waitingKnowledgeAction env ctx st message tr = (Inr s, tr')" and s: "reply = Some s"
      by (auto dest!: bind_InrD simp: ret_def)
    from knowledge_writes[OF r] obtain d where
      d: "tr' = tr @ d" "calls isStateWrite d = 1
      \<or> (calls isStateWrite d = 0 \<and> (\<exists>t. s = msg_objective_missing_a @ t @ msg_objective_missing_check))"
      by blast
    with s k Stored show ?thesis by (intro exI[of _ d]) (auto simp: knownStatus_def)
  next
    case u
    then have h: "handleMessage rt env ctx message =
        bind (setUserState env ?row None) (\<lambda>_. freshRequest rt env ctx message)"
      using Stored by (simp add: handleMessage_def Let_def knownStatus_def)
    have "adds isStateWrite (bind (setUserState env ?row None) (\<lambda>_. freshRequest rt env ctx message))
        (Suc 0 + 0) (Suc 0 + Suc 0)"
      by (intro adds_bind adds_write freshRequest_write)
    from adds_traceD[OF this run[unfolded h]] obtain d where
      "tr' = tr @ d" "calls isStateWrite d \<le> 2" "1 \<le> calls isStateWrite d" by auto
    with u Stored show ?thesis by (intro exI[of _ d]) (auto simp: knownStatus_def)
  qed
qed

lemma cancel_run:
  "handleMessage rt0 env_ok (userIn (Stored (confirmationState (Some plan_abc)))) [19981, 35201] [] =
     (Inr (Some msg_cancelled), [(SetUserState 7 None, True)])"
proof -
  have t: "trim [19981, 35201] = [19981, 35201]" by (simp add: trim_def isWhiteSpace_def)
  have n: "isNegative rt0 [19981, 35201]"
    by (simp add: isNegative_def rt0_simps negativeResponses_def)
  have p: "\<not> isPureConfirmation [19981, 35201]"
    by (simp add: isPureConfirmation_def pureConfirmTerms_def)
  show ?thesis using n p
    by (simp add: handleMessage_def waitingConfirmation_def userIn_def t Let_def
        confirmationState_def noState_def setUserState_def env_ok_def bind_def extern_def ret_def)
qed

theorem handleMessage_state_writes_witness:
  "handleMessage rt0 env_ok (userIn (Stored (confirmationState (Some plan_abc)))) [19981, 35201] [] =
     (Inr (Some msg_cancelled), [(SetUserState 7 None, True)])
   \<and> (\<exists>d. [(SetUserState 7 None, True)] = [] @ d \<and> calls isStateWrite d = 1)"
proof -
  let ?st = "confirmationState (Some plan_abc)"
  have s: "state_json (uc_user (userIn (Stored ?st))) = Stored ?st" by (simp add: userIn_def)
  have w: "us_status ?st = Some (ascii ''waiting_confirmation'')"
    by (simp add: confirmationState_def noState_def)
  from handleMessage_state_writes[OF cancel_run] obtain d where
    d: "[(SetUserState 7 None, True)] = [] @ d"
    and a: "\<forall>st. state_json (uc_user (userIn (Stored ?st))) = Stored st \<longrightarrow>
          (us_status st = Some (ascii ''waiting_confirmation'')
             \<or> us_status st = Some (ascii ''waiting_delete_confirmation'')
             \<or> us_status st = Some (ascii ''waiting_plan_correction'')
           \<longrightarrow> calls isStateWrite d = 1 \<and> (\<exists>s. Some msg_cancelled = Some s \<and> s \<noteq> []))"
    by blast
  from a s w have "calls isStateWrite d = 1" by blast
  with d cancel_run show ?thesis by blast
qed

theorem handleMessage_state_writes_counterexample:
  "handleMessage rt0 env_clarify_empty (userIn Absent) (ascii ''hi'') [] =
     (Inr (Some []), [(LlmUnderstand (ascii ''hi''), True)])
   \<and> calls isStateWrite [(LlmUnderstand (ascii ''hi''), True)] = 0
   \<and> handleMessage rt0 env_bogus_lookup (userIn (Stored (knowledgeState 1))) (ascii ''hi'') [] =
     (Inr (Some (msg_objective_missing_a @ ascii ''X'' @ msg_objective_missing_check)),
      [(LlmUnderstand (ascii ''hi''), True),
       (FindObjectiveByTitle 1 (Some (ascii ''X'')), True)])"
proof (intro conjI)
  show "handleMessage rt0 env_clarify_empty (userIn Absent) (ascii ''hi'') [] =
     (Inr (Some []), [(LlmUnderstand (ascii ''hi''), True)])"
    by (simp add: handleMessage_def freshRequest_def understandAndPlan_def dispatchIntent_def
        userIn_def env_clarify_empty_def env_ok_def clarifyIntent_def emptyIntent_def
        emptyParams_def Let_def bind_def catch_def extern_def ret_def)
  show "calls isStateWrite [(LlmUnderstand (ascii ''hi''), True)] = 0" by simp
  show "handleMessage rt0 env_bogus_lookup (userIn (Stored (knowledgeState 1))) (ascii ''hi'') [] =
     (Inr (Some (msg_objective_missing_a @ ascii ''X'' @ msg_objective_missing_check)),
      [(LlmUnderstand (ascii ''hi''), True),
       (FindObjectiveByTitle 1 (Some (ascii ''X'')), True)])"
    by (simp add: handleMessage_def waitingKnowledgeAction_def understandAndPlan_def
        findObjectiveByTitle_def userIn_def knowledgeState_def noState_def
        env_bogus_lookup_def env_ok_def emptyIntent_def emptyParams_def Let_def
        bind_def catch_def extern_def ret_def)
qed

end
